theory Spec2Isabelle
  imports Main "HOL-Library.AList"
begin

section \<open>Python values, strings and dictionaries\<close>

text \<open>
  The values that cross the client: parameters handed to the driver, cells of a result
  row, and what \<^verbatim>\<open>json.loads\<close> can return. Floats, decimals and timestamps are never
  inspected by the client; they are kept as \<open>POpaque\<close> with their textual form.
  A \<^verbatim>\<open>str\<close> is a \<open>string\<close>; a character stands for one code point below 256.
\<close>

datatype pyval =
    PNone
  | PBool bool
  | PInt int
  | PStr string
  | PList "pyval list"
  | PDict "(string \<times> pyval) list"
  | POpaque string

text \<open>\<^verbatim>\<open>sub in s\<close> for two strings.\<close>

fun py_contains :: "string \<Rightarrow> string \<Rightarrow> bool" where
  "py_contains sub [] = (sub = [])"
| "py_contains sub (c # cs) = (take (length sub) (c # cs) = sub \<or> py_contains sub cs)"

text \<open>\<^verbatim>\<open>str.lower()\<close>, on the characters below 256: A-Z, and the Latin-1 capitals.\<close>

definition lower_char :: "char \<Rightarrow> char" where
  "lower_char c =
     (let n = of_char c :: nat
      in if (65 \<le> n \<and> n \<le> 90) \<or> (192 \<le> n \<and> n \<le> 222 \<and> n \<noteq> 215)
         then char_of (n + 32) else c)"

definition lower :: "string \<Rightarrow> string" where
  "lower s = map lower_char s"

text \<open>\<^verbatim>\<open>sep.join(xs)\<close>.\<close>

fun join :: "string \<Rightarrow> string list \<Rightarrow> string" where
  "join sep [] = []"
| "join sep [x] = x"
| "join sep (x # y # ys) = x @ sep @ join sep (y # ys)"

text \<open>
  A \<^verbatim>\<open>dict\<close> keeps its keys in the order of their first insertion, and a later insertion
  under an existing key replaces the value in place: an association list with
  \<open>AList.update\<close>. \<open>py_dict\<close> is \<^verbatim>\<open>dict(pairs)\<close>.
\<close>

type_synonym ('k, 'v) pydict = "('k \<times> 'v) list"

definition py_dict :: "('k \<times> 'v) list \<Rightarrow> ('k, 'v) pydict" where
  "py_dict ps = foldl (\<lambda>d (k, v). AList.update k v d) [] ps"

definition dict_get :: "('k, 'v) pydict \<Rightarrow> 'k \<Rightarrow> 'v option" where
  "dict_get d k = map_of d k"

definition dict_keys :: "('k, 'v) pydict \<Rightarrow> 'k list" where
  "dict_keys d = map fst d"

section \<open>Exceptions\<close>

text \<open>The four exception classes of \<^verbatim>\<open>exceptions.py\<close>, each with its message.\<close>

datatype exn =
    SnowflakeConnectionError string
  | StoredProcedureError string
  | AuthenticationError string
  | ConfigurationError string

text \<open>
  An exception raised below the client (by the driver or the standard library): its class,
  as far as the \<^verbatim>\<open>except\<close> clauses tell classes apart, and \<^verbatim>\<open>str(e)\<close>.
  In the driver \<^verbatim>\<open>ProgrammingError\<close> is a subclass of \<^verbatim>\<open>DatabaseError\<close>;
  \<open>DatabaseErrorC\<close> stands for \<^verbatim>\<open>DatabaseError\<close> and its other subclasses,
  \<open>ExceptionC\<close> for every other subclass of \<^verbatim>\<open>Exception\<close>.
\<close>

datatype exn_class = ProgrammingErrorC | DatabaseErrorC | ExceptionC

datatype raised = Raised exn_class string

fun is_DatabaseError :: "exn_class \<Rightarrow> bool" where
  "is_DatabaseError ProgrammingErrorC = True"
| "is_DatabaseError DatabaseErrorC = True"
| "is_DatabaseError ExceptionC = False"

fun is_ProgrammingError :: "exn_class \<Rightarrow> bool" where
  "is_ProgrammingError ProgrammingErrorC = True"
| "is_ProgrammingError DatabaseErrorC = False"
| "is_ProgrammingError ExceptionC = False"

section \<open>The driver\<close>

text \<open>
  \<^verbatim>\<open>snowflake.connector\<close> is not part of the repository: it is a parameter of the model.
  \<open>drv_connect\<close> answers \<^verbatim>\<open>snowflake.connector.connect(**connection_params)\<close>
  (\<open>None\<close>: a connection is returned), \<open>drv_cursor\<close> answers \<^verbatim>\<open>connection.cursor()\<close>,
  and \<open>drv_execute\<close> tells, for a statement and its bound values, how the cursor behaves:
  whether \<^verbatim>\<open>execute\<close> raises, what \<^verbatim>\<open>description\<close> holds afterwards (each entry with
  the column name first, then the type code), what \<^verbatim>\<open>fetchall()\<close> returns or raises, and
  whether \<^verbatim>\<open>close()\<close> raises.
\<close>

type_synonym handle = nat

type_synonym conn_params = "(string, string) pydict"

record cursor =
  execute_raises :: "raised option"
  description :: "(string \<times> nat) list option"
  fetchall :: "raised + pyval list list"
  close_raises :: "raised option"

record driver =
  drv_connect :: "conn_params \<Rightarrow> raised option"
  drv_cursor :: "handle \<Rightarrow> raised option"
  drv_execute :: "string \<Rightarrow> pyval list option \<Rightarrow> cursor"

text \<open>
  What the driver holds outside the client: the connection objects it has returned, each
  with its closed flag (a handle is the object's index), and the calls it has received.
\<close>

datatype drv_call =
    DrvConnect conn_params
  | DrvClose handle
  | DrvCursor handle
  | DrvExecute handle string "pyval list option"

record world =
  conns :: "bool list"
  dlog :: "drv_call list"

text \<open>\<^verbatim>\<open>connection.is_closed()\<close>; a handle the driver never returned counts as closed.\<close>

definition is_closed :: "world \<Rightarrow> handle \<Rightarrow> bool" where
  "is_closed w h = (if h < length (conns w) then conns w ! h else True)"

definition called :: "drv_call \<Rightarrow> world \<Rightarrow> world" where
  "called c w = w\<lparr>dlog := dlog w @ [c]\<rparr>"

section \<open>SnowflakeClient\<close>

record session =
  account :: string
  username :: string
  token :: string
  warehouse :: "string option"
  database :: "string option"
  schema :: "string option"
  role :: "string option"
  connection :: "handle option"

text \<open>\<^verbatim>\<open>SnowflakeClient.__init__\<close>\<close>

definition init :: "string \<Rightarrow> string \<Rightarrow> string \<Rightarrow> string option \<Rightarrow> string option \<Rightarrow>
    string option \<Rightarrow> string option \<Rightarrow> session" where
  "init a u t wh db sc r =
     \<lparr>account = a, username = u, token = t, warehouse = wh, database = db, schema = sc,
      role = r, connection = None\<rparr>"

text \<open>\<^verbatim>\<open>if self.warehouse: connection_params['warehouse'] = self.warehouse\<close>\<close>

fun optional_param :: "string \<Rightarrow> string option \<Rightarrow> conn_params" where
  "optional_param k None = []"
| "optional_param k (Some v) = (if v = [] then [] else [(k, v)])"

definition connection_params :: "session \<Rightarrow> conn_params" where
  "connection_params s =
     [(''account'', account s), (''user'', username s), (''token'', token s),
      (''authenticator'', ''oauth'')]
     @ optional_param ''warehouse'' (warehouse s)
     @ optional_param ''database'' (database s)
     @ optional_param ''schema'' (schema s)
     @ optional_param ''role'' (role s)"

text \<open>The two \<^verbatim>\<open>except\<close> clauses of \<^verbatim>\<open>connect\<close>.\<close>

fun connect_error :: "raised \<Rightarrow> exn" where
  "connect_error (Raised c msg) =
     (if is_DatabaseError c then
        (if py_contains ''authentication'' (lower msg)
         then AuthenticationError (''Authentication failed: '' @ msg)
         else SnowflakeConnectionError (''Failed to connect to Snowflake: '' @ msg))
      else SnowflakeConnectionError (''Unexpected error connecting to Snowflake: '' @ msg))"

text \<open>\<^verbatim>\<open>SnowflakeClient.connect\<close>: the driver is called with the parameters as they are.\<close>

definition connect :: "driver \<Rightarrow> session \<Rightarrow> world \<Rightarrow> (exn + unit) \<times> session \<times> world" where
  "connect drv s w =
     (let ps = connection_params s;
          w1 = called (DrvConnect ps) w
      in case drv_connect drv ps of
           None \<Rightarrow>
             (Inr (), s\<lparr>connection := Some (length (conns w1))\<rparr>,
              w1\<lparr>conns := conns w1 @ [False]\<rparr>)
         | Some e \<Rightarrow> (Inl (connect_error e), s, w1))"

text \<open>\<^verbatim>\<open>SnowflakeClient.disconnect\<close>\<close>

definition disconnect :: "session \<Rightarrow> world \<Rightarrow> session \<times> world" where
  "disconnect s w =
     (case connection s of
        None \<Rightarrow> (s, w)
      | Some h \<Rightarrow>
          (s\<lparr>connection := None\<rparr>,
           (called (DrvClose h) w)\<lparr>conns := (conns w)[h := True]\<rparr>))"

text \<open>\<^verbatim>\<open>SnowflakeClient.is_connected\<close>\<close>

definition is_connected :: "session \<Rightarrow> world \<Rightarrow> bool" where
  "is_connected s w = (case connection s of None \<Rightarrow> False | Some h \<Rightarrow> \<not> is_closed w h)"

text \<open>
  Lines 125-135 of \<^verbatim>\<open>call_stored_procedure\<close>: the statement and the values handed to
  \<^verbatim>\<open>cursor.execute\<close> (\<open>None\<close>: \<^verbatim>\<open>execute\<close> is called with the statement alone).
  \<^verbatim>\<open>if parameters:\<close> is false for \<^verbatim>\<open>None\<close> and for the empty list.
\<close>

definition placeholders :: "'a list \<Rightarrow> string" where
  "placeholders parameters = join '', '' (replicate (length parameters) ''%s'')"

fun call_statement :: "string \<Rightarrow> pyval list option \<Rightarrow> string \<times> pyval list option" where
  "call_statement procedure_name None = (''CALL '' @ procedure_name @ ''()'', None)"
| "call_statement procedure_name (Some parameters) =
     (if parameters \<noteq> []
      then (''CALL '' @ procedure_name @ ''('' @ placeholders parameters @ '')'', Some parameters)
      else (''CALL '' @ procedure_name @ ''()'', None))"

text \<open>
  The result loop both methods share (lines 137-145 and 188-195): \<^verbatim>\<open>if cursor.description:\<close>
  is false for \<^verbatim>\<open>None\<close> and for an empty description, and then \<^verbatim>\<open>fetchall\<close> is not
  called; \<^verbatim>\<open>zip\<close> stops at the shorter of the columns and the row; \<^verbatim>\<open>cursor.close()\<close>
  follows.
\<close>

type_synonym row_dict = "(string, pyval) pydict"

definition row_dicts :: "(string \<times> nat) list \<Rightarrow> pyval list list \<Rightarrow> row_dict list" where
  "row_dicts desc rows = (let columns = map fst desc in map (\<lambda>row. py_dict (zip columns row)) rows)"

definition fetch_results :: "cursor \<Rightarrow> raised + row_dict list" where
  "fetch_results cur =
     (let fetched =
            (case description cur of
               None \<Rightarrow> Inr []
             | Some desc \<Rightarrow>
                 if desc = [] then Inr []
                 else (case fetchall cur of
                         Inl e \<Rightarrow> Inl e
                       | Inr rows \<Rightarrow> Inr (row_dicts desc rows)))
      in case fetched of
           Inl e \<Rightarrow> Inl e
         | Inr results \<Rightarrow>
             (case close_raises cur of Some e \<Rightarrow> Inl e | None \<Rightarrow> Inr results))"

text \<open>
  The \<^verbatim>\<open>try\<close> block of both methods, for the statement and values to execute: what it
  returns or which exception leaves it.
\<close>

definition run_cursor :: "driver \<Rightarrow> handle \<Rightarrow> string \<times> pyval list option \<Rightarrow> world \<Rightarrow>
    (raised + row_dict list) \<times> world" where
  "run_cursor drv h stmt w =
     (let w1 = called (DrvCursor h) w
      in case drv_cursor drv h of
           Some e \<Rightarrow> (Inl e, w1)
         | None \<Rightarrow>
             (let w2 = called (DrvExecute h (fst stmt) (snd stmt)) w1;
                  cur = drv_execute drv (fst stmt) (snd stmt)
              in case execute_raises cur of
                   Some e \<Rightarrow> (Inl e, w2)
                 | None \<Rightarrow> (fetch_results cur, w2)))"

text \<open>The \<^verbatim>\<open>except\<close> clauses of \<^verbatim>\<open>call_stored_procedure\<close> and of \<^verbatim>\<open>execute_query\<close>.\<close>

fun procedure_error :: "string \<Rightarrow> raised \<Rightarrow> exn" where
  "procedure_error procedure_name (Raised c msg) =
     (if is_ProgrammingError c
      then StoredProcedureError
             (''Error executing stored procedure '' @ procedure_name @ '': '' @ msg)
      else StoredProcedureError
             (''Unexpected error executing stored procedure '' @ procedure_name @ '': '' @ msg))"

fun query_error :: "raised \<Rightarrow> exn" where
  "query_error (Raised c msg) =
     (if is_ProgrammingError c
      then StoredProcedureError (''Error executing query: '' @ msg)
      else StoredProcedureError (''Unexpected error executing query: '' @ msg))"

definition not_connected :: exn where
  "not_connected = SnowflakeConnectionError ''Not connected to Snowflake. Call connect() first.''"

text \<open>
  \<^verbatim>\<open>SnowflakeClient.call_stored_procedure\<close>; the client's own fields are not assigned.
  The handle is read (\<^verbatim>\<open>self.connection.cursor()\<close>) after the check, which has excluded
  \<^verbatim>\<open>None\<close>; the same holds in \<^verbatim>\<open>execute_query\<close>.
\<close>

definition call_stored_procedure :: "driver \<Rightarrow> session \<Rightarrow> world \<Rightarrow> string \<Rightarrow>
    pyval list option \<Rightarrow> (exn + row_dict list) \<times> world" where
  "call_stored_procedure drv s w procedure_name parameters =
     (if \<not> is_connected s w then (Inl not_connected, w)
      else case connection s of
             None \<Rightarrow> (Inl not_connected, w)
           | Some h \<Rightarrow>
               (case run_cursor drv h (call_statement procedure_name parameters) w of
                  (Inl e, w') \<Rightarrow> (Inl (procedure_error procedure_name e), w')
                | (Inr results, w') \<Rightarrow> (Inr results, w')))"

text \<open>\<^verbatim>\<open>SnowflakeClient.call_sp_example\<close>\<close>

definition call_sp_example :: "driver \<Rightarrow> session \<Rightarrow> world \<Rightarrow> pyval list option \<Rightarrow>
    (exn + row_dict list) \<times> world" where
  "call_sp_example drv s w parameters = call_stored_procedure drv s w ''sp_example'' parameters"

text \<open>\<^verbatim>\<open>SnowflakeClient.execute_query\<close>\<close>

definition execute_query :: "driver \<Rightarrow> session \<Rightarrow> world \<Rightarrow> string \<Rightarrow>
    (exn + row_dict list) \<times> world" where
  "execute_query drv s w query =
     (if \<not> is_connected s w then (Inl not_connected, w)
      else case connection s of
             None \<Rightarrow> (Inl not_connected, w)
           | Some h \<Rightarrow>
               (case run_cursor drv h (query, None) w of
                  (Inl e, w') \<Rightarrow> (Inl (query_error e), w')
                | (Inr results, w') \<Rightarrow> (Inr results, w')))"

section \<open>The context manager\<close>

text \<open>
  What leaves a \<^verbatim>\<open>with client:\<close> block: one of the client's exceptions or any other.
\<close>

datatype any_exn = ClientError exn | OtherError raised

text \<open>
  \<^verbatim>\<open>__enter__\<close> is \<^verbatim>\<open>connect\<close> and \<^verbatim>\<open>__exit__\<close> is \<^verbatim>\<open>disconnect\<close>, returning
  \<^verbatim>\<open>None\<close>, so an exception of the body is not suppressed. \<open>with_client\<close> is Python's
  \<^verbatim>\<open>with client: body\<close>: when \<^verbatim>\<open>__enter__\<close> raises, neither the body nor \<^verbatim>\<open>__exit__\<close>
  runs; otherwise \<^verbatim>\<open>__exit__\<close> runs after the body, however the body ends.
\<close>

definition enter :: "driver \<Rightarrow> session \<Rightarrow> world \<Rightarrow> (exn + unit) \<times> session \<times> world" where
  "enter drv s w = connect drv s w"

definition exit :: "session \<Rightarrow> world \<Rightarrow> session \<times> world" where
  "exit s w = disconnect s w"

definition with_client :: "driver \<Rightarrow> (session \<Rightarrow> world \<Rightarrow> (any_exn + 'a) \<times> session \<times> world) \<Rightarrow>
    session \<Rightarrow> world \<Rightarrow> (any_exn + 'a) \<times> session \<times> world" where
  "with_client drv body s w =
     (case enter drv s w of
        (Inl e, s1, w1) \<Rightarrow> (Inl (ClientError e), s1, w1)
      | (Inr u, s1, w1) \<Rightarrow>
          (case body s1 w1 of
             (r, s2, w2) \<Rightarrow> (case exit s2 w2 of (s3, w3) \<Rightarrow> (r, s3, w3))))"

section \<open>The command line\<close>

text \<open>
  \<^verbatim>\<open>str.isspace\<close> on the characters below 256, \<^verbatim>\<open>str.strip()\<close> and \<^verbatim>\<open>str.split(',')\<close>
  (which returns one token more than there are separators, so never the empty list).
\<close>

definition py_isspace :: "char \<Rightarrow> bool" where
  "py_isspace c =
     (let n = of_char c :: nat
      in (9 \<le> n \<and> n \<le> 13) \<or> (28 \<le> n \<and> n \<le> 32) \<or> n = 133 \<or> n = 160)"

definition strip :: "string \<Rightarrow> string" where
  "strip s = rev (dropWhile py_isspace (rev (dropWhile py_isspace s)))"

fun split :: "char \<Rightarrow> string \<Rightarrow> string list" where
  "split sep [] = [[]]"
| "split sep (c # cs) =
     (if c = sep then [] # split sep cs
      else (case split sep cs of
              [] \<Rightarrow> [[c]]
            | t # ts \<Rightarrow> (c # t) # ts))"

text \<open>
  \<^verbatim>\<open>json.loads\<close> belongs to the standard library: it is a parameter. It returns a value,
  raises \<^verbatim>\<open>json.JSONDecodeError\<close>, or raises something else (a \<^verbatim>\<open>RecursionError\<close> on deep
  nesting, a \<^verbatim>\<open>ValueError\<close> on an integer literal beyond the digit limit).
\<close>

datatype json_result = Decoded pyval | JSONDecodeError | JsonRaises raised

text \<open>
  The loop of \<^verbatim>\<open>parse_parameters\<close> (lines 46-54): only \<^verbatim>\<open>JSONDecodeError\<close> is caught.
\<close>

fun parse_tokens :: "(string \<Rightarrow> json_result) \<Rightarrow> string list \<Rightarrow> raised + pyval list" where
  "parse_tokens json_loads [] = Inr []"
| "parse_tokens json_loads (param # params) =
     (case json_loads param of
        JsonRaises e \<Rightarrow> Inl e
      | Decoded parsed_param \<Rightarrow>
          (case parse_tokens json_loads params of
             Inl e \<Rightarrow> Inl e
           | Inr parsed_params \<Rightarrow> Inr (parsed_param # parsed_params))
      | JSONDecodeError \<Rightarrow>
          (case parse_tokens json_loads params of
             Inl e \<Rightarrow> Inl e
           | Inr parsed_params \<Rightarrow> Inr (PStr param # parsed_params)))"

text \<open>\<^verbatim>\<open>parse_parameters\<close>: \<^verbatim>\<open>if not param_string: return None\<close> holds for \<^verbatim>\<open>None\<close> and \<^verbatim>\<open>""\<close>.\<close>

fun parse_parameters :: "(string \<Rightarrow> json_result) \<Rightarrow> string option \<Rightarrow>
    raised + pyval list option" where
  "parse_parameters json_loads None = Inr None"
| "parse_parameters json_loads (Some param_string) =
     (if param_string = [] then Inr None
      else (case parse_tokens json_loads (map strip (split CHR '','' param_string)) of
              Inl e \<Rightarrow> Inl e
            | Inr parsed_params \<Rightarrow> Inr (Some parsed_params)))"

text \<open>
  \<^verbatim>\<open>load_config_from_env\<close>, with \<^verbatim>\<open>os.getenv\<close> as a function; \<^verbatim>\<open>if value:\<close> skips a
  variable that is unset or empty.
\<close>

definition env_mapping :: "(string \<times> string) list" where
  "env_mapping =
     [(''SNOWFLAKE_ACCOUNT'', ''account''), (''SNOWFLAKE_USERNAME'', ''username''),
      (''SNOWFLAKE_TOKEN'', ''token''), (''SNOWFLAKE_WAREHOUSE'', ''warehouse''),
      (''SNOWFLAKE_DATABASE'', ''database''), (''SNOWFLAKE_SCHEMA'', ''schema''),
      (''SNOWFLAKE_ROLE'', ''role'')]"

definition set_if_truthy :: "string \<Rightarrow> string option \<Rightarrow> (string, string) pydict \<Rightarrow>
    (string, string) pydict" where
  "set_if_truthy key v config =
     (case v of
        None \<Rightarrow> config
      | Some x \<Rightarrow> if x \<noteq> [] then AList.update key x config else config)"

definition load_config_from_env :: "(string \<Rightarrow> string option) \<Rightarrow> (string, string) pydict" where
  "load_config_from_env getenv =
     foldl (\<lambda>config (env_var, config_key). set_if_truthy config_key (getenv env_var) config)
       [] env_mapping"

text \<open>The parsed arguments \<^verbatim>\<open>main\<close> reads before it renders the results.\<close>

record args =
  arg_account :: "string option"
  arg_username :: "string option"
  arg_token :: "string option"
  arg_warehouse :: "string option"
  arg_database :: "string option"
  arg_schema :: "string option"
  arg_role :: "string option"
  arg_procedure :: string
  arg_parameters :: "string option"
  arg_query :: "string option"

definition getattr :: "args \<Rightarrow> string \<Rightarrow> string option" where
  "getattr a key =
     (if key = ''account'' then arg_account a
      else if key = ''username'' then arg_username a
      else if key = ''token'' then arg_token a
      else if key = ''warehouse'' then arg_warehouse a
      else if key = ''database'' then arg_database a
      else if key = ''schema'' then arg_schema a
      else if key = ''role'' then arg_role a
      else None)"

text \<open>Lines 135-139 of \<^verbatim>\<open>main\<close>: a non-empty argument overrides the environment.\<close>

definition override_config :: "args \<Rightarrow> (string, string) pydict \<Rightarrow> (string, string) pydict" where
  "override_config a config0 =
     foldl (\<lambda>config key. set_if_truthy key (getattr a key) config) config0
       [''account'', ''username'', ''token'', ''warehouse'', ''database'', ''schema'', ''role'']"

text \<open>Lines 142-143.\<close>

definition missing_params :: "(string, string) pydict \<Rightarrow> string list" where
  "missing_params config =
     filter (\<lambda>param. dict_get config param = None) [''account'', ''username'', ''token'']"

text \<open>\<^verbatim>\<open>config[key]\<close>, which raises \<^verbatim>\<open>KeyError\<close> for an absent key.\<close>

definition dict_item :: "(string, string) pydict \<Rightarrow> string \<Rightarrow> raised + string" where
  "dict_item d k =
     (case dict_get d k of
        None \<Rightarrow> Inl (Raised ExceptionC ([CHR 0x27] @ k @ [CHR 0x27]))
      | Some v \<Rightarrow> Inr v)"

text \<open>The body of the \<^verbatim>\<open>with client:\<close> block of \<^verbatim>\<open>main\<close>, up to \<^verbatim>\<open>results\<close> (lines 164-172).\<close>

definition main_body :: "driver \<Rightarrow> (string \<Rightarrow> json_result) \<Rightarrow> args \<Rightarrow> session \<Rightarrow> world \<Rightarrow>
    (any_exn + row_dict list) \<times> session \<times> world" where
  "main_body drv json_loads a client w =
     (let run_query =
            (case arg_query a of None \<Rightarrow> None | Some q \<Rightarrow> if q \<noteq> [] then Some q else None)
      in case run_query of
           Some q \<Rightarrow>
             (case execute_query drv client w q of
                (Inl e, w') \<Rightarrow> (Inl (ClientError e), client, w')
              | (Inr results, w') \<Rightarrow> (Inr results, client, w'))
         | None \<Rightarrow>
             (case parse_parameters json_loads (arg_parameters a) of
                Inl e \<Rightarrow> (Inl (OtherError e), client, w)
              | Inr parameters \<Rightarrow>
                  (case call_stored_procedure drv client w (arg_procedure a) parameters of
                     (Inl e, w') \<Rightarrow> (Inl (ClientError e), client, w')
                   | (Inr results, w') \<Rightarrow> (Inr results, client, w'))))"

text \<open>
  \<^verbatim>\<open>main\<close> from the configuration to the results (lines 131-172): what the \<^verbatim>\<open>try\<close> block
  raises (every handler logs and exits with status 1) or the results it goes on to render.
  The rendering and writing of the output (lines 174-204) are not modelled.
\<close>

definition main :: "driver \<Rightarrow> (string \<Rightarrow> json_result) \<Rightarrow> (string \<Rightarrow> string option) \<Rightarrow> args \<Rightarrow>
    world \<Rightarrow> (any_exn + row_dict list) \<times> world" where
  "main drv json_loads getenv a w =
     (let config = override_config a (load_config_from_env getenv);
          missing = missing_params config
      in if missing \<noteq> [] then
           (Inl (ClientError (ConfigurationError
              (''Missing required parameters: '' @ join '', '' missing
               @ ''. Provide them via command line arguments or environment variables.''))), w)
         else
           (case dict_item config ''account'' of
              Inl e \<Rightarrow> (Inl (OtherError e), w)
            | Inr acc \<Rightarrow>
           (case dict_item config ''username'' of
              Inl e \<Rightarrow> (Inl (OtherError e), w)
            | Inr usr \<Rightarrow>
           (case dict_item config ''token'' of
              Inl e \<Rightarrow> (Inl (OtherError e), w)
            | Inr tok \<Rightarrow>
                (let client = init acc usr tok (dict_get config ''warehouse'')
                       (dict_get config ''database'') (dict_get config ''schema'')
                       (dict_get config ''role'')
                 in case with_client drv (main_body drv json_loads a) client w of
                      (r, client', w') \<Rightarrow> (r, w'))))))"

section \<open>Notions used by the statements\<close>

text \<open>The number of positions of \<open>s\<close> at which \<open>sub\<close> starts.\<close>

fun occurrences :: "string \<Rightarrow> string \<Rightarrow> nat" where
  "occurrences sub [] = 0"
| "occurrences sub (c # cs) =
     (if take (length sub) (c # cs) = sub then 1 else 0) + occurrences sub cs"

text \<open>The keys of a list of pairs, each at its first appearance.\<close>

definition first_appearances :: "'k list \<Rightarrow> 'k list" where
  "first_appearances ks = rev (remdups (rev ks))"

text \<open>Truthiness of an optional string: set and not empty.\<close>

definition truthy :: "string option \<Rightarrow> bool" where
  "truthy v = (case v of None \<Rightarrow> False | Some x \<Rightarrow> x \<noteq> [])"

text \<open>
  An execution that goes through: \<^verbatim>\<open>execute\<close> and \<^verbatim>\<open>close\<close> do not raise, the
  description is \<open>desc\<close> and \<^verbatim>\<open>fetchall()\<close> returns \<open>rows\<close>.
\<close>

definition returns_rows :: "cursor \<Rightarrow> (string \<times> nat) list option \<Rightarrow> pyval list list \<Rightarrow> bool" where
  "returns_rows cur desc rows =
     (execute_raises cur = None \<and> description cur = desc \<and> fetchall cur = Inr rows
      \<and> close_raises cur = None)"

section \<open>Sample drivers and inputs\<close>

definition world0 :: world where
  "world0 = \<lparr>conns = [], dlog = []\<rparr>"

definition table_AB :: cursor where
  "table_AB =
     \<lparr>execute_raises = None, description = Some [(''A'', 0), (''B'', 2)],
      fetchall = Inr [[PInt 1, PStr ''x''], [PInt 2, PStr ''y'']], close_raises = None\<rparr>"

definition no_table :: cursor where
  "no_table =
     \<lparr>execute_raises = None, description = None, fetchall = Inr [], close_raises = None\<rparr>"

text \<open>A driver that connects and answers every statement with the table above.\<close>

definition drv_table :: driver where
  "drv_table =
     \<lparr>drv_connect = (\<lambda>ps. None), drv_cursor = (\<lambda>h. None),
      drv_execute = (\<lambda>stmt binds. table_AB)\<rparr>"

text \<open>A driver that connects and answers every statement without a description.\<close>

definition drv_no_table :: driver where
  "drv_no_table =
     \<lparr>drv_connect = (\<lambda>ps. None), drv_cursor = (\<lambda>h. None),
      drv_execute = (\<lambda>stmt binds. no_table)\<rparr>"

text \<open>A driver whose \<^verbatim>\<open>connect\<close> raises \<open>e\<close>.\<close>

definition drv_refusing :: "raised \<Rightarrow> driver" where
  "drv_refusing e =
     \<lparr>drv_connect = (\<lambda>ps. Some e), drv_cursor = (\<lambda>h. None),
      drv_execute = (\<lambda>stmt binds. no_table)\<rparr>"

text \<open>A driver that connects and whose \<^verbatim>\<open>execute\<close> raises \<open>e\<close>.\<close>

definition drv_failing :: "raised \<Rightarrow> driver" where
  "drv_failing e =
     \<lparr>drv_connect = (\<lambda>ps. None), drv_cursor = (\<lambda>h. None),
      drv_execute = (\<lambda>stmt binds. no_table\<lparr>execute_raises := Some e\<rparr>)\<rparr>"

text \<open>
  A stand-in for \<^verbatim>\<open>json.loads\<close> on the tokens of the sample parameter strings: it
  knows \<^verbatim>\<open>123\<close> and \<^verbatim>\<open>true\<close> and rejects the rest, as \<^verbatim>\<open>json.loads\<close> rejects
  \<^verbatim>\<open>hello\<close> and the empty string.
\<close>

definition json_sample :: "string \<Rightarrow> json_result" where
  "json_sample t =
     (if t = ''123'' then Decoded (PInt 123)
      else if t = ''true'' then Decoded (PBool True)
      else JSONDecodeError)"

definition client_test :: session where
  "client_test = init ''acct'' ''test'' ''test'' None None None None"

definition no_args :: args where
  "no_args =
     \<lparr>arg_account = None, arg_username = None, arg_token = None, arg_warehouse = None,
      arg_database = None, arg_schema = None, arg_role = None, arg_procedure = ''sp_example'',
      arg_parameters = None, arg_query = None\<rparr>"

section \<open>Strings\<close>

lemma py_contains_self: "py_contains sub (sub @ q)"
proof (cases "sub @ q")
  case Nil
  then show ?thesis by simp
next
  case (Cons a l)
  have "take (length sub) (sub @ q) = sub" by simp
  with Cons show ?thesis by simp
qed

lemma py_contains_append: "py_contains sub (p @ sub @ q)"
proof (induction p)
  case Nil
  show ?case using py_contains_self by simp
next
  case (Cons a p)
  then show ?case by simp
qed

lemma py_contains_suffix: "py_contains sub (p @ sub)"
  using py_contains_append [of sub p "[]"] by simp

lemma py_contains_iff: "py_contains sub s \<longleftrightarrow> (\<exists>p q. s = p @ sub @ q)"
proof
  show "py_contains sub s \<Longrightarrow> \<exists>p q. s = p @ sub @ q"
  proof (induction s)
    case Nil
    then show ?case by simp
  next
    case (Cons c cs)
    show ?case
    proof (cases "take (length sub) (c # cs) = sub")
      case True
      then have "c # cs = [] @ sub @ drop (length sub) (c # cs)"
        by (metis append_Nil append_take_drop_id)
      then show ?thesis by blast
    next
      case False
      with Cons.prems have "py_contains sub cs" by simp
      then obtain p q where "cs = p @ sub @ q" using Cons.IH by blast
      then have "c # cs = (c # p) @ sub @ q" by simp
      then show ?thesis by blast
    qed
  qed
next
  show "\<exists>p q. s = p @ sub @ q \<Longrightarrow> py_contains sub s"
    using py_contains_append by blast
qed

declare py_contains.simps [simp del]

section \<open>Connecting\<close>

lemma connect_raised:
  "drv_connect drv (connection_params s) = Some e \<Longrightarrow>
   connect drv s w = (Inl (connect_error e), s, called (DrvConnect (connection_params s)) w)"
  by (simp add: connect_def Let_def)




section \<open>The connected precondition\<close>

lemma is_connected_None: "connection s = None \<Longrightarrow> \<not> is_connected s w"
  by (simp add: is_connected_def)

lemma is_connected_Some:
  "connection s = Some h \<Longrightarrow> is_connected s w \<longleftrightarrow> \<not> is_closed w h"
  by (simp add: is_connected_def)

lemma not_connected_cases:
  "\<not> is_connected s w \<longleftrightarrow>
     connection s = None \<or> (\<exists>h. connection s = Some h \<and> is_closed w h)"
  by (cases "connection s") (simp_all add: is_connected_def)

lemma call_stored_procedure_disconnected:
  "\<not> is_connected s w \<Longrightarrow>
   call_stored_procedure drv s w procedure_name parameters = (Inl not_connected, w)"
  by (simp add: call_stored_procedure_def)

lemma execute_query_disconnected:
  "\<not> is_connected s w \<Longrightarrow> execute_query drv s w query = (Inl not_connected, w)"
  by (simp add: execute_query_def)

text \<open>
  C5. With no connection handle, or with a closed one, \<^verbatim>\<open>call_stored_procedure\<close> and
  \<^verbatim>\<open>execute_query\<close> raise \<^verbatim>\<open>SnowflakeConnectionError\<close> with the not-connected message,
  whatever the driver would do, and the driver receives no call.
\<close>

theorem disconnected_raises_connection_error:
  assumes "connection s = None \<or> (\<exists>h. connection s = Some h \<and> is_closed w h)"
  shows "call_stored_procedure drv s w procedure_name parameters
           = (Inl (SnowflakeConnectionError ''Not connected to Snowflake. Call connect() first.''), w)
       \<and> execute_query drv s w query
           = (Inl (SnowflakeConnectionError ''Not connected to Snowflake. Call connect() first.''), w)"
proof -
  have "\<not> is_connected s w" using assms not_connected_cases by blast
  then show ?thesis
    using call_stored_procedure_disconnected execute_query_disconnected
    by (simp add: not_connected_def)
qed

theorem disconnected_raises_connection_error_witness:
  "call_stored_procedure (drv_failing (Raised ProgrammingErrorC ''boom'')) client_test world0
       ''sp_example'' (Some [PInt 1])
     = (Inl (SnowflakeConnectionError ''Not connected to Snowflake. Call connect() first.''), world0)
   \<and> execute_query (drv_failing (Raised ProgrammingErrorC ''boom'')) client_test world0 ''SELECT 1''
     = (Inl (SnowflakeConnectionError ''Not connected to Snowflake. Call connect() first.''), world0)
   \<and> call_stored_procedure drv_table (client_test\<lparr>connection := Some 0\<rparr>)
       \<lparr>conns = [True], dlog = []\<rparr> ''sp_example'' None
     = (Inl (SnowflakeConnectionError ''Not connected to Snowflake. Call connect() first.''),
        \<lparr>conns = [True], dlog = []\<rparr>)
   \<and> execute_query drv_table (client_test\<lparr>connection := Some 0\<rparr>)
       \<lparr>conns = [True], dlog = []\<rparr> ''SELECT 1''
     = (Inl (SnowflakeConnectionError ''Not connected to Snowflake. Call connect() first.''),
        \<lparr>conns = [True], dlog = []\<rparr>)"
proof -
  have a: "connection client_test = None \<or> (\<exists>h. connection client_test = Some h \<and> is_closed world0 h)"
    by (simp add: client_test_def init_def)
  have b: "connection (client_test\<lparr>connection := Some 0\<rparr>) = None
      \<or> (\<exists>h. connection (client_test\<lparr>connection := Some 0\<rparr>) = Some h
            \<and> is_closed \<lparr>conns = [True], dlog = []\<rparr> h)"
    by (simp add: is_closed_def)
  show ?thesis
    using disconnected_raises_connection_error [OF a, of "drv_failing (Raised ProgrammingErrorC ''boom'')"
        "''sp_example''" "Some [PInt 1]" "''SELECT 1''"]
      disconnected_raises_connection_error [OF b, of drv_table "''sp_example''" None "''SELECT 1''"]
    by simp
qed

section \<open>The CALL statement\<close>

lemma join_replicate_Suc:
  "join sep (replicate (Suc (Suc n)) x) = x @ sep @ join sep (replicate (Suc n) x)"
  by simp

lemma occurrences_placeholders_Suc:
  "occurrences ''%s'' (join '', '' (replicate (Suc n) ''%s'')) = Suc n"
proof (induction n)
  case 0
  show ?case by simp
next
  case (Suc n)
  obtain r where r: "join '', '' (replicate (Suc n) ''%s'') = CHR ''%'' # r"
    by (cases n) simp_all
  have "occurrences ''%s'' (join '', '' (replicate (Suc (Suc n)) ''%s''))
      = occurrences ''%s'' (''%s, '' @ join '', '' (replicate (Suc n) ''%s''))"
    by simp
  also have "\<dots> = Suc (occurrences ''%s'' (join '', '' (replicate (Suc n) ''%s'')))"
    by (simp add: r)
  finally show ?case using Suc.IH by simp
qed

lemma occurrences_placeholders: "occurrences ''%s'' (placeholders ps) = length ps"
proof (cases ps)
  case Nil
  then show ?thesis by (simp add: placeholders_def)
next
  case (Cons p ps')
  then show ?thesis
    using occurrences_placeholders_Suc [of "length ps'"] by (simp add: placeholders_def)
qed

lemma placeholders_length:
  "length ps = length ps' \<Longrightarrow> placeholders ps = placeholders ps'"
  by (simp add: placeholders_def)

lemma run_cursor_conns: "conns (snd (run_cursor drv h stmt w)) = conns w"
  by (simp add: run_cursor_def called_def Let_def split: option.splits)

lemma run_cursor_dlog:
  "drv_cursor drv h = None \<Longrightarrow>
   dlog (snd (run_cursor drv h stmt w))
     = dlog w @ [DrvCursor h, DrvExecute h (fst stmt) (snd stmt)]"
  by (simp add: run_cursor_def called_def Let_def split: option.splits)

lemma call_stored_procedure_connected:
  "connection s = Some h \<Longrightarrow> \<not> is_closed w h \<Longrightarrow>
   call_stored_procedure drv s w procedure_name parameters
     = (case run_cursor drv h (call_statement procedure_name parameters) w of
          (Inl e, w') \<Rightarrow> (Inl (procedure_error procedure_name e), w')
        | (Inr results, w') \<Rightarrow> (Inr results, w'))"
  by (simp add: call_stored_procedure_def is_connected_def)

lemma execute_query_connected:
  "connection s = Some h \<Longrightarrow> \<not> is_closed w h \<Longrightarrow>
   execute_query drv s w query
     = (case run_cursor drv h (query, None) w of
          (Inl e, w') \<Rightarrow> (Inl (query_error e), w')
        | (Inr results, w') \<Rightarrow> (Inr results, w'))"
  by (simp add: execute_query_def is_connected_def)

lemma call_stored_procedure_world:
  "connection s = Some h \<Longrightarrow> \<not> is_closed w h \<Longrightarrow>
   snd (call_stored_procedure drv s w procedure_name parameters)
     = snd (run_cursor drv h (call_statement procedure_name parameters) w)"
  by (simp add: call_stored_procedure_connected split: prod.splits sum.splits)

lemma execute_query_world:
  "connection s = Some h \<Longrightarrow> \<not> is_closed w h \<Longrightarrow>
   snd (execute_query drv s w query) = snd (run_cursor drv h (query, None) w)"
  by (simp add: execute_query_connected split: prod.splits sum.splits)

lemma call_statement_text:
  "\<exists>inner. fst (call_statement procedure_name (Some parameters))
             = ''CALL '' @ procedure_name @ ''('' @ inner @ '')''
        \<and> occurrences ''%s'' inner = length parameters
        \<and> inner = placeholders parameters"
proof (cases "parameters = []")
  case True
  then have "fst (call_statement procedure_name (Some parameters))
      = ''CALL '' @ procedure_name @ ''('' @ [] @ '')''"
    by simp
  moreover have "placeholders parameters = []" using True by (simp add: placeholders_def)
  ultimately show ?thesis using True by auto
next
  case False
  then have "fst (call_statement procedure_name (Some parameters))
      = ''CALL '' @ procedure_name @ ''('' @ placeholders parameters @ '')''"
    by simp
  then show ?thesis using occurrences_placeholders by blast
qed

text \<open>
  C6. For every parameter list the statement is \<^verbatim>\<open>CALL name(...)\<close> with as many
  \<^verbatim>\<open>%s\<close> placeholders between the parentheses as there are parameters; the text is the
  same for any other list of the same length, so no value enters it; a non-empty list is
  handed to \<^verbatim>\<open>cursor.execute\<close> unchanged, next to the statement. Without parameters the
  statement is \<^verbatim>\<open>CALL name()\<close> and nothing is bound. On a connected session whose cursor
  opens, this statement and these values are what the driver's \<^verbatim>\<open>execute\<close> receives.
\<close>

theorem call_binds_one_placeholder_per_parameter:
  "(\<exists>inner. fst (call_statement procedure_name (Some parameters))
              = ''CALL '' @ procedure_name @ ''('' @ inner @ '')''
         \<and> occurrences ''%s'' inner = length parameters
         \<and> (\<forall>others. length others = length parameters \<longrightarrow>
               fst (call_statement procedure_name (Some others))
                 = ''CALL '' @ procedure_name @ ''('' @ inner @ '')''))
   \<and> (parameters \<noteq> [] \<longrightarrow> snd (call_statement procedure_name (Some parameters)) = Some parameters)
   \<and> call_statement procedure_name None = (''CALL '' @ procedure_name @ ''()'', None)
   \<and> (connection s = Some h \<and> \<not> is_closed w h \<and> drv_cursor drv h = None \<longrightarrow>
        dlog (snd (call_stored_procedure drv s w procedure_name given))
          = dlog w @ [DrvCursor h,
                      DrvExecute h (fst (call_statement procedure_name given))
                        (snd (call_statement procedure_name given))])"
proof -
  obtain inner where t: "fst (call_statement procedure_name (Some parameters))
             = ''CALL '' @ procedure_name @ ''('' @ inner @ '')''"
      "occurrences ''%s'' inner = length parameters" "inner = placeholders parameters"
    using call_statement_text by blast
  have "fst (call_statement procedure_name (Some others))
          = ''CALL '' @ procedure_name @ ''('' @ inner @ '')''"
    if "length others = length parameters" for others
  proof -
    obtain inner' where t': "fst (call_statement procedure_name (Some others))
             = ''CALL '' @ procedure_name @ ''('' @ inner' @ '')''" "inner' = placeholders others"
      using call_statement_text by blast
    have "inner' = inner" using t(3) t'(2) placeholders_length [OF that] by simp
    then show ?thesis using t'(1) by simp
  qed
  then have first: "\<exists>inner. fst (call_statement procedure_name (Some parameters))
              = ''CALL '' @ procedure_name @ ''('' @ inner @ '')''
         \<and> occurrences ''%s'' inner = length parameters
         \<and> (\<forall>others. length others = length parameters \<longrightarrow>
               fst (call_statement procedure_name (Some others))
                 = ''CALL '' @ procedure_name @ ''('' @ inner @ '')'')"
    using t(1,2) by blast
  have log: "dlog (snd (call_stored_procedure drv s w procedure_name given))
          = dlog w @ [DrvCursor h,
                      DrvExecute h (fst (call_statement procedure_name given))
                        (snd (call_statement procedure_name given))]"
    if "connection s = Some h" "\<not> is_closed w h" "drv_cursor drv h = None"
    using that by (simp add: call_stored_procedure_world run_cursor_dlog)
  show ?thesis using first log by simp
qed

theorem call_binds_one_placeholder_per_parameter_witness:
  "fst (call_statement ''my_proc'' (Some [PStr ''x); DROP TABLE t; --'', PInt 2]))
     = ''CALL my_proc(%s, %s)''
   \<and> snd (call_statement ''my_proc'' (Some [PStr ''a'', PInt 2])) = Some [PStr ''a'', PInt 2]
   \<and> dlog (snd (call_stored_procedure drv_table (client_test\<lparr>connection := Some 0\<rparr>)
              \<lparr>conns = [False], dlog = []\<rparr> ''my_proc'' (Some [PStr ''a'', PInt 2])))
     = [DrvCursor 0, DrvExecute 0 ''CALL my_proc(%s, %s)'' (Some [PStr ''a'', PInt 2])]"
proof -
  have pre: "connection (client_test\<lparr>connection := Some 0\<rparr>) = Some 0
      \<and> \<not> is_closed \<lparr>conns = [False], dlog = []\<rparr> 0 \<and> drv_cursor drv_table 0 = None"
    by (simp add: is_closed_def drv_table_def)
  have stm: "fst (call_statement ''my_proc'' (Some [PStr ''a'', PInt 2])) = ''CALL my_proc(%s, %s)''"
    by (simp add: placeholders_def eval_nat_numeral)
  from call_binds_one_placeholder_per_parameter [of "''my_proc''" "[PStr ''a'', PInt 2]"
      "client_test\<lparr>connection := Some 0\<rparr>" 0 "\<lparr>conns = [False], dlog = []\<rparr>" drv_table
      "Some [PStr ''a'', PInt 2]"]
  obtain inner where
    a: "fst (call_statement ''my_proc'' (Some [PStr ''a'', PInt 2])) = ''CALL '' @ ''my_proc'' @ ''('' @ inner @ '')''"
    and b: "\<forall>others. length others = length [PStr ''a'', PInt 2] \<longrightarrow>
               fst (call_statement ''my_proc'' (Some others)) = ''CALL '' @ ''my_proc'' @ ''('' @ inner @ '')''"
    and c: "snd (call_statement ''my_proc'' (Some [PStr ''a'', PInt 2])) = Some [PStr ''a'', PInt 2]"
    and d: "dlog (snd (call_stored_procedure drv_table (client_test\<lparr>connection := Some 0\<rparr>)
              \<lparr>conns = [False], dlog = []\<rparr> ''my_proc'' (Some [PStr ''a'', PInt 2])))
          = dlog \<lparr>conns = [False], dlog = []\<rparr> @ [DrvCursor 0,
                      DrvExecute 0 (fst (call_statement ''my_proc'' (Some [PStr ''a'', PInt 2])))
                        (snd (call_statement ''my_proc'' (Some [PStr ''a'', PInt 2])))]"
    using pre by auto
  have "length [PStr ''x); DROP TABLE t; --'', PInt 2] = length [PStr ''a'', PInt 2]"
    by simp
  then have "fst (call_statement ''my_proc'' (Some [PStr ''x); DROP TABLE t; --'', PInt 2]))
      = ''CALL '' @ ''my_proc'' @ ''('' @ inner @ '')''"
    using b by blast
  then have e: "fst (call_statement ''my_proc'' (Some [PStr ''x); DROP TABLE t; --'', PInt 2]))
      = ''CALL my_proc(%s, %s)''"
    using a stm by simp
  show ?thesis using e c d stm by simp
qed

section \<open>The life cycle of the connection\<close>

lemma disconnect_None: "connection s = None \<Longrightarrow> disconnect s w = (s, w)"
  by (simp add: disconnect_def)

lemma disconnect_Some:
  "connection s = Some h \<Longrightarrow>
   disconnect s w
     = (s\<lparr>connection := None\<rparr>, (called (DrvClose h) w)\<lparr>conns := (conns w)[h := True]\<rparr>)"
  by (simp add: disconnect_def)

lemma connection_disconnect: "connection (fst (disconnect s w)) = None"
  by (cases "connection s") (simp_all add: disconnect_def)

lemma disconnect_twice:
  "disconnect (fst (disconnect s w)) (snd (disconnect s w)) = disconnect s w"
  using disconnect_None [OF connection_disconnect] by simp

lemma not_connected_after_disconnect:
  "\<not> is_connected (fst (disconnect s w)) (snd (disconnect s w))"
  using connection_disconnect by (rule is_connected_None)

lemma dlog_disconnect:
  "dlog (snd (disconnect s w))
     = dlog w @ (case connection s of None \<Rightarrow> [] | Some h \<Rightarrow> [DrvClose h])"
  by (cases "connection s") (simp_all add: disconnect_def called_def)

lemma connect_returned:
  "drv_connect drv (connection_params s) = None \<Longrightarrow>
   connect drv s w
     = (Inr (), s\<lparr>connection := Some (length (conns w))\<rparr>,
        (called (DrvConnect (connection_params s)) w)\<lparr>conns := conns w @ [False]\<rparr>)"
  by (simp add: connect_def Let_def called_def)

lemma connect_outcome:
  "fst (connect drv s w) = Inr u \<longleftrightarrow> drv_connect drv (connection_params s) = None"
  by (cases "drv_connect drv (connection_params s)") (simp_all add: connect_def Let_def)

lemma connected_after_connect:
  assumes "fst (connect drv s w) = Inr u"
  shows "is_connected (fst (snd (connect drv s w))) (snd (snd (connect drv s w)))"
proof -
  have "drv_connect drv (connection_params s) = None"
    using assms connect_outcome by blast
  then show ?thesis
    by (simp add: connect_returned is_connected_def is_closed_def called_def)
qed

lemma is_closed_conns: "conns w' = conns w \<Longrightarrow> is_closed w' h = is_closed w h"
  by (simp add: is_closed_def)

lemma is_connected_conns: "conns w' = conns w \<Longrightarrow> is_connected s w' = is_connected s w"
  by (simp add: is_connected_def is_closed_def split: option.splits)

lemma is_connected_handle:
  "is_connected s w \<Longrightarrow> \<exists>h. connection s = Some h \<and> \<not> is_closed w h"
  by (cases "connection s") (simp_all add: is_connected_def)

lemma call_stored_procedure_conns:
  "conns (snd (call_stored_procedure drv s w procedure_name parameters)) = conns w"
proof (cases "is_connected s w")
  case True
  then obtain h where "connection s = Some h" "\<not> is_closed w h"
    using is_connected_handle by blast
  then show ?thesis by (simp add: call_stored_procedure_world run_cursor_conns)
next
  case False
  then show ?thesis by (simp add: call_stored_procedure_disconnected)
qed

lemma execute_query_conns: "conns (snd (execute_query drv s w query)) = conns w"
proof (cases "is_connected s w")
  case True
  then obtain h where "connection s = Some h" "\<not> is_closed w h"
    using is_connected_handle by blast
  then show ?thesis by (simp add: execute_query_world run_cursor_conns)
next
  case False
  then show ?thesis by (simp add: execute_query_disconnected)
qed

lemma still_connected_after_connect:
  assumes "is_connected s w"
  shows "is_connected (fst (snd (connect drv s w))) (snd (snd (connect drv s w)))"
proof (cases "drv_connect drv (connection_params s)")
  case None
  then have "fst (connect drv s w) = Inr ()" by (simp add: connect_returned)
  then show ?thesis by (rule connected_after_connect)
next
  case (Some e)
  have "conns (called (DrvConnect (connection_params s)) w) = conns w"
    by (simp add: called_def)
  then have "is_connected s (called (DrvConnect (connection_params s)) w)"
    using assms is_connected_conns by blast
  then show ?thesis using Some by (simp add: connect_raised)
qed

text \<open>
  C8. A second \<^verbatim>\<open>disconnect\<close> changes nothing, \<^verbatim>\<open>disconnect\<close> without a connection
  handle changes nothing (and \<^verbatim>\<open>disconnect\<close> has no failing outcome), and after any
  \<^verbatim>\<open>disconnect\<close> \<^verbatim>\<open>is_connected\<close> is false. After a \<^verbatim>\<open>connect\<close> that returns,
  \<^verbatim>\<open>is_connected\<close> is true, and it stays true across \<^verbatim>\<open>call_stored_procedure\<close>,
  \<^verbatim>\<open>execute_query\<close> and a further \<^verbatim>\<open>connect\<close>, whatever their outcome: the only method
  that ends it is \<^verbatim>\<open>disconnect\<close>.
\<close>

theorem disconnect_idempotent_and_connected_until_disconnect:
  "disconnect (fst (disconnect s w)) (snd (disconnect s w)) = disconnect s w
   \<and> (connection s = None \<longrightarrow> disconnect s w = (s, w))
   \<and> \<not> is_connected (fst (disconnect s w)) (snd (disconnect s w))
   \<and> (fst (connect drv s w) = Inr () \<longrightarrow>
        is_connected (fst (snd (connect drv s w))) (snd (snd (connect drv s w))))
   \<and> (is_connected s w \<longrightarrow>
        is_connected s (snd (call_stored_procedure drv s w procedure_name parameters))
        \<and> is_connected s (snd (execute_query drv s w query))
        \<and> is_connected (fst (snd (connect drv s w))) (snd (snd (connect drv s w))))"
  using disconnect_twice [of s w] disconnect_None [of s w] not_connected_after_disconnect [of s w]
    connected_after_connect [of drv s w "()"] still_connected_after_connect [of s w drv]
    is_connected_conns [OF call_stored_procedure_conns, of s drv s w procedure_name parameters]
    is_connected_conns [OF execute_query_conns, of s drv s w query]
  by blast

theorem disconnect_idempotent_and_connected_until_disconnect_witness:
  "fst (connect drv_table client_test world0) = Inr ()
   \<and> is_connected (fst (snd (connect drv_table client_test world0)))
        (snd (snd (connect drv_table client_test world0)))
   \<and> connection client_test = None
   \<and> disconnect client_test world0 = (client_test, world0)
   \<and> is_connected (client_test\<lparr>connection := Some 0\<rparr>) \<lparr>conns = [False], dlog = []\<rparr>
   \<and> is_connected (client_test\<lparr>connection := Some 0\<rparr>)
        (snd (call_stored_procedure drv_table (client_test\<lparr>connection := Some 0\<rparr>)
                \<lparr>conns = [False], dlog = []\<rparr> ''sp_example'' None))
   \<and> is_connected (client_test\<lparr>connection := Some 0\<rparr>)
        (snd (execute_query (drv_failing (Raised ProgrammingErrorC ''boom''))
                (client_test\<lparr>connection := Some 0\<rparr>) \<lparr>conns = [False], dlog = []\<rparr> ''SELECT 1''))
   \<and> \<not> is_connected
        (fst (disconnect (client_test\<lparr>connection := Some 0\<rparr>) \<lparr>conns = [False], dlog = []\<rparr>))
        (snd (disconnect (client_test\<lparr>connection := Some 0\<rparr>) \<lparr>conns = [False], dlog = []\<rparr>))"
proof -
  have a: "fst (connect drv_table client_test world0) = Inr ()"
    by (simp add: connect_def drv_table_def Let_def)
  have b: "connection client_test = None"
    by (simp add: client_test_def init_def)
  have c: "is_connected (client_test\<lparr>connection := Some 0\<rparr>) \<lparr>conns = [False], dlog = []\<rparr>"
    by (simp add: is_connected_def is_closed_def)
  show ?thesis
    using a b c
      disconnect_idempotent_and_connected_until_disconnect [of client_test world0 drv_table
        "''sp_example''" None "''SELECT 1''"]
      disconnect_idempotent_and_connected_until_disconnect [of "client_test\<lparr>connection := Some 0\<rparr>"
        "\<lparr>conns = [False], dlog = []\<rparr>" drv_table "''sp_example''" None "''SELECT 1''"]
      disconnect_idempotent_and_connected_until_disconnect [of "client_test\<lparr>connection := Some 0\<rparr>"
        "\<lparr>conns = [False], dlog = []\<rparr>" "drv_failing (Raised ProgrammingErrorC ''boom'')"
        "''sp_example''" None "''SELECT 1''"]
    by blast
qed

section \<open>The scoped use\<close>

lemma with_client_entered:
  assumes "connect drv s w = (Inr u, s1, w1)" and "body s1 w1 = (r, s2, w2)"
  shows "with_client drv body s w = (r, fst (disconnect s2 w2), snd (disconnect s2 w2))"
  using assms by (simp add: with_client_def enter_def exit_def split: prod.splits)

text \<open>
  C7. \<^verbatim>\<open>__enter__\<close> is \<^verbatim>\<open>connect\<close>. Once it has returned, whatever the body does and
  however it ends (\<open>r\<close> is its result or the exception it raises), the block ends in the
  state that one call of \<^verbatim>\<open>disconnect\<close> makes of the state the body left, and with the
  body's outcome: the session has no connection handle, is not connected, and the handle the
  body left in the session, if any, has received one more \<^verbatim>\<open>close\<close> than before the exit.
\<close>

theorem scope_connects_and_disconnects_once:
  assumes "connect drv s w = (Inr (), s1, w1)" and "body s1 w1 = (r, s2, w2)"
  shows "enter drv s w = connect drv s w
       \<and> exit s2 w2 = disconnect s2 w2
       \<and> with_client drv body s w = (r, fst (disconnect s2 w2), snd (disconnect s2 w2))
       \<and> connection (fst (snd (with_client drv body s w))) = None
       \<and> \<not> is_connected (fst (snd (with_client drv body s w))) (snd (snd (with_client drv body s w)))
       \<and> (\<forall>h. connection s2 = Some h \<longrightarrow>
             dlog (snd (snd (with_client drv body s w))) = dlog w2 @ [DrvClose h]
             \<and> count_list (dlog (snd (snd (with_client drv body s w)))) (DrvClose h)
                 = Suc (count_list (dlog w2) (DrvClose h)))
       \<and> (connection s2 = None \<longrightarrow> snd (with_client drv body s w) = (s2, w2))"
proof -
  have run: "with_client drv body s w = (r, fst (disconnect s2 w2), snd (disconnect s2 w2))"
    using assms by (rule with_client_entered)
  have log: "dlog (snd (snd (with_client drv body s w))) = dlog w2 @ [DrvClose h]
             \<and> count_list (dlog (snd (snd (with_client drv body s w)))) (DrvClose h)
                 = Suc (count_list (dlog w2) (DrvClose h))"
    if "connection s2 = Some h" for h
    using that run by (simp add: dlog_disconnect)
  have none: "snd (with_client drv body s w) = (s2, w2)" if "connection s2 = None"
    using that run by (simp add: disconnect_None)
  show ?thesis
    using run log none connection_disconnect [of s2 w2] not_connected_after_disconnect [of s2 w2]
    by (simp add: enter_def exit_def)
qed

theorem scope_connects_and_disconnects_once_witness:
  "fst (with_client drv_table (main_body drv_table json_sample no_args) client_test world0)
     = Inr [[(''A'', PInt 1), (''B'', PStr ''x'')], [(''A'', PInt 2), (''B'', PStr ''y'')]]
   \<and> count_list
        (dlog (snd (snd (with_client drv_table (main_body drv_table json_sample no_args)
                           client_test world0))))
        (DrvClose 0) = 1
   \<and> fst (with_client (drv_failing (Raised ProgrammingErrorC ''boom''))
            (main_body (drv_failing (Raised ProgrammingErrorC ''boom'')) json_sample no_args)
            client_test world0)
     = Inl (ClientError (StoredProcedureError ''Error executing stored procedure sp_example: boom''))
   \<and> count_list
        (dlog (snd (snd (with_client (drv_failing (Raised ProgrammingErrorC ''boom''))
            (main_body (drv_failing (Raised ProgrammingErrorC ''boom'')) json_sample no_args)
            client_test world0))))
        (DrvClose 0) = 1"
proof -
  let ?ps = "[(''account'', ''acct''), (''user'', ''test''), (''token'', ''test''),
              (''authenticator'', ''oauth'')]"
  let ?s1 = "client_test\<lparr>connection := Some 0\<rparr>"
  let ?w1 = "\<lparr>conns = [False], dlog = [DrvConnect ?ps]\<rparr>"
  let ?w2 = "\<lparr>conns = [False],
              dlog = [DrvConnect ?ps, DrvCursor 0, DrvExecute 0 ''CALL sp_example()'' None]\<rparr>"
  let ?rows = "[[(''A'', PInt 1), (''B'', PStr ''x'')], [(''A'', PInt 2), (''B'', PStr ''y'')]]"
  let ?bad = "drv_failing (Raised ProgrammingErrorC ''boom'')"
  let ?err = "ClientError (StoredProcedureError ''Error executing stored procedure sp_example: boom'')"
  have c1: "connect drv_table client_test world0 = (Inr (), ?s1, ?w1)"
    by (simp add: connect_def connection_params_def drv_table_def client_test_def init_def
        world0_def called_def Let_def)
  have b1: "main_body drv_table json_sample no_args ?s1 ?w1 = (Inr ?rows, ?s1, ?w2)"
    by (simp add: main_body_def no_args_def call_stored_procedure_def is_connected_def
        is_closed_def run_cursor_def fetch_results_def row_dicts_def py_dict_def drv_table_def
        table_AB_def called_def Let_def)
  have c2: "connect ?bad client_test world0 = (Inr (), ?s1, ?w1)"
    by (simp add: connect_def connection_params_def drv_failing_def client_test_def init_def
        world0_def called_def Let_def)
  have b2: "main_body ?bad json_sample no_args ?s1 ?w1 = (Inl ?err, ?s1, ?w2)"
    by (simp add: main_body_def no_args_def call_stored_procedure_def is_connected_def
        is_closed_def run_cursor_def drv_failing_def no_table_def called_def Let_def)
  note t1 = scope_connects_and_disconnects_once
        [where body = "main_body drv_table json_sample no_args", OF c1 b1]
  note t2 = scope_connects_and_disconnects_once
        [where body = "main_body ?bad json_sample no_args", OF c2 b2]
  have h: "connection ?s1 = Some 0" by simp
  have n: "count_list (dlog ?w2) (DrvClose 0) = 0" by simp
  have r1: "fst (with_client drv_table (main_body drv_table json_sample no_args) client_test world0)
      = Inr ?rows"
    using t1 by simp
  have k1: "count_list
        (dlog (snd (snd (with_client drv_table (main_body drv_table json_sample no_args)
                           client_test world0))))
        (DrvClose 0) = Suc (count_list (dlog ?w2) (DrvClose 0))"
    using t1 h by blast
  have r2: "fst (with_client ?bad (main_body ?bad json_sample no_args) client_test world0)
      = Inl ?err"
    using t2 by simp
  have k2: "count_list
        (dlog (snd (snd (with_client ?bad (main_body ?bad json_sample no_args)
                           client_test world0))))
        (DrvClose 0) = Suc (count_list (dlog ?w2) (DrvClose 0))"
    using t2 h by blast
  show ?thesis
    using r1 r2 k1 k2 n by simp
qed

section \<open>Result rows\<close>

lemma py_dict_snoc: "py_dict (ps @ [(k, v)]) = AList.update k v (py_dict ps)"
  by (simp add: py_dict_def)

lemma py_dict_Nil: "py_dict [] = []"
  by (simp add: py_dict_def)

lemma update_fresh: "k \<notin> fst ` set al \<Longrightarrow> AList.update k v al = al @ [(k, v)]"
  by (induction al) auto

lemma dict_keys_py_dict: "dict_keys (py_dict ps) = first_appearances (map fst ps)"
proof (induction ps rule: rev_induct)
  case Nil
  show ?case by (simp add: py_dict_Nil dict_keys_def first_appearances_def)
next
  case (snoc p ps)
  obtain k v where p: "p = (k, v)" by (cases p)
  have keys: "set (map fst (py_dict ps)) = set (map fst ps)"
    using snoc.IH by (simp add: dict_keys_def first_appearances_def)
  have "dict_keys (py_dict (ps @ [p]))
      = (if k \<in> set (map fst ps) then dict_keys (py_dict ps) else dict_keys (py_dict ps) @ [k])"
    using keys by (simp add: p py_dict_snoc dict_keys_def update_keys)
  also have "\<dots> = first_appearances (map fst (ps @ [p]))"
    using snoc.IH by (simp add: p first_appearances_def)
  finally show ?case .
qed

lemma dict_get_py_dict: "dict_get (py_dict ps) k = map_of (rev ps) k"
proof (induction ps rule: rev_induct)
  case Nil
  show ?case by (simp add: py_dict_Nil dict_get_def)
next
  case (snoc p ps)
  obtain k' v where p: "p = (k', v)" by (cases p)
  show ?case using snoc.IH by (simp add: p py_dict_snoc dict_get_def update_conv')
qed

lemma py_dict_distinct: "distinct (map fst ps) \<Longrightarrow> py_dict ps = ps"
proof (induction ps rule: rev_induct)
  case Nil
  show ?case by (simp add: py_dict_Nil)
next
  case (snoc p ps)
  obtain k v where p: "p = (k, v)" by (cases p)
  have "k \<notin> fst ` set ps" using snoc.prems by (simp add: p)
  moreover have "py_dict ps = ps" using snoc by simp
  ultimately show ?case by (simp add: p py_dict_snoc update_fresh)
qed

lemma length_row_dicts: "length (row_dicts desc rows) = length rows"
  by (simp add: row_dicts_def)

lemma nth_row_dicts:
  "i < length rows \<Longrightarrow> row_dicts desc rows ! i = py_dict (zip (map fst desc) (rows ! i))"
  by (simp add: row_dicts_def)

lemma fetch_results_rows:
  "returns_rows cur (Some desc) rows \<Longrightarrow> desc \<noteq> [] \<Longrightarrow>
   fetch_results cur = Inr (row_dicts desc rows)"
  by (simp add: returns_rows_def fetch_results_def)

lemma fetch_results_no_description:
  "close_raises cur = None \<Longrightarrow> description cur = None \<or> description cur = Some [] \<Longrightarrow>
   fetch_results cur = Inr []"
  by (auto simp: fetch_results_def)

lemma run_cursor_executed:
  "drv_cursor drv h = None \<Longrightarrow> execute_raises (drv_execute drv (fst stmt) (snd stmt)) = None \<Longrightarrow>
   fst (run_cursor drv h stmt w) = fetch_results (drv_execute drv (fst stmt) (snd stmt))"
  by (simp add: run_cursor_def Let_def)

lemma call_stored_procedure_result:
  assumes "connection s = Some h" "\<not> is_closed w h" "drv_cursor drv h = None"
    and "execute_raises (drv_execute drv (fst (call_statement procedure_name parameters))
           (snd (call_statement procedure_name parameters))) = None"
    and "fetch_results (drv_execute drv (fst (call_statement procedure_name parameters))
           (snd (call_statement procedure_name parameters))) = Inr results"
  shows "fst (call_stored_procedure drv s w procedure_name parameters) = Inr results"
proof -
  have "fst (run_cursor drv h (call_statement procedure_name parameters) w) = Inr results"
    using assms(3-5) by (simp add: run_cursor_executed)
  then obtain w' where "run_cursor drv h (call_statement procedure_name parameters) w
      = (Inr results, w')"
    by (cases "run_cursor drv h (call_statement procedure_name parameters) w") simp
  then show ?thesis
    using assms(1,2) by (simp add: call_stored_procedure_connected)
qed

lemma execute_query_result:
  assumes "connection s = Some h" "\<not> is_closed w h" "drv_cursor drv h = None"
    and "execute_raises (drv_execute drv query None) = None"
    and "fetch_results (drv_execute drv query None) = Inr results"
  shows "fst (execute_query drv s w query) = Inr results"
proof -
  have "fst (run_cursor drv h (query, None) w) = Inr results"
    using assms(3-5) by (simp add: run_cursor_executed)
  then obtain w' where "run_cursor drv h (query, None) w = (Inr results, w')"
    by (cases "run_cursor drv h (query, None) w") simp
  then show ?thesis
    using assms(1,2) by (simp add: execute_query_connected)
qed

lemma row_dicts_decode:
  assumes "i < length rows"
  shows "dict_keys (row_dicts desc rows ! i)
           = first_appearances (map fst (zip (map fst desc) (rows ! i)))"
    and "dict_get (row_dicts desc rows ! i) k = map_of (rev (zip (map fst desc) (rows ! i))) k"
    and "distinct (map fst desc) \<Longrightarrow> length (rows ! i) = length desc \<Longrightarrow>
           row_dicts desc rows ! i = zip (map fst desc) (rows ! i)"
proof -
  show "dict_keys (row_dicts desc rows ! i)
           = first_appearances (map fst (zip (map fst desc) (rows ! i)))"
    using assms by (simp only: nth_row_dicts dict_keys_py_dict)
  show "dict_get (row_dicts desc rows ! i) k = map_of (rev (zip (map fst desc) (rows ! i))) k"
    using assms by (simp only: nth_row_dicts dict_get_py_dict)
  show "row_dicts desc rows ! i = zip (map fst desc) (rows ! i)"
    if "distinct (map fst desc)" "length (rows ! i) = length desc"
  proof -
    have "map fst (zip (map fst desc) (rows ! i)) = map fst desc"
      using that(2) by simp
    then have "distinct (map fst (zip (map fst desc) (rows ! i)))"
      using that(1) by simp
    then show ?thesis using assms by (simp only: nth_row_dicts py_dict_distinct)
  qed
qed

text \<open>
  C3. On a connected session whose cursor opens, when the execution goes through with a
  non-empty description, \<^verbatim>\<open>call_stored_procedure\<close> and \<^verbatim>\<open>execute_query\<close> return one
  record per fetched row, in the order of the rows. The keys of a record are the column
  names in the order the driver reports them (each name once, at its first position),
  a name maps to the row's value under that name (the last one, should the name repeat),
  and with distinct names and a row as long as the description the record is exactly the
  column names paired with the row's values, in column order. Without a description (or
  with an empty one) the result is the empty list. Columns A, B with rows (1, "x"), (2, "y")
  give the records {A: 1, B: "x"}, {A: 2, B: "y"}.
\<close>

theorem results_are_one_record_per_row:
  assumes "connection s = Some h" and "\<not> is_closed w h" and "drv_cursor drv h = None"
    and "drv_execute drv (fst (call_statement procedure_name parameters))
           (snd (call_statement procedure_name parameters)) = pcur"
    and "drv_execute drv query None = qcur"
  shows "(returns_rows pcur (Some desc) rows \<and> desc \<noteq> [] \<longrightarrow>
           (\<exists>results.
              fst (call_stored_procedure drv s w procedure_name parameters) = Inr results
              \<and> length results = length rows
              \<and> (\<forall>i<length rows.
                    dict_keys (results ! i)
                      = first_appearances (map fst (zip (map fst desc) (rows ! i)))
                    \<and> (\<forall>k. dict_get (results ! i) k
                               = map_of (rev (zip (map fst desc) (rows ! i))) k)
                    \<and> (distinct (map fst desc) \<and> length (rows ! i) = length desc \<longrightarrow>
                          results ! i = zip (map fst desc) (rows ! i)))))
       \<and> (returns_rows qcur (Some desc) rows \<and> desc \<noteq> [] \<longrightarrow>
           (\<exists>results.
              fst (execute_query drv s w query) = Inr results
              \<and> length results = length rows
              \<and> (\<forall>i<length rows.
                    dict_keys (results ! i)
                      = first_appearances (map fst (zip (map fst desc) (rows ! i)))
                    \<and> (\<forall>k. dict_get (results ! i) k
                               = map_of (rev (zip (map fst desc) (rows ! i))) k)
                    \<and> (distinct (map fst desc) \<and> length (rows ! i) = length desc \<longrightarrow>
                          results ! i = zip (map fst desc) (rows ! i)))))
       \<and> (execute_raises pcur = None \<and> close_raises pcur = None
            \<and> (description pcur = None \<or> description pcur = Some []) \<longrightarrow>
            fst (call_stored_procedure drv s w procedure_name parameters) = Inr [])
       \<and> (execute_raises qcur = None \<and> close_raises qcur = None
            \<and> (description qcur = None \<or> description qcur = Some []) \<longrightarrow>
            fst (execute_query drv s w query) = Inr [])
       \<and> row_dicts [(''A'', ta), (''B'', tb)] [[PInt 1, PStr ''x''], [PInt 2, PStr ''y'']]
            = [[(''A'', PInt 1), (''B'', PStr ''x'')], [(''A'', PInt 2), (''B'', PStr ''y'')]]"
proof -
  let ?decoded = "\<lambda>results. length results = length rows
              \<and> (\<forall>i<length rows.
                    dict_keys (results ! i)
                      = first_appearances (map fst (zip (map fst desc) (rows ! i)))
                    \<and> (\<forall>k. dict_get (results ! i) k
                               = map_of (rev (zip (map fst desc) (rows ! i))) k)
                    \<and> (distinct (map fst desc) \<and> length (rows ! i) = length desc \<longrightarrow>
                          results ! i = zip (map fst desc) (rows ! i)))"
  have decoded: "?decoded (row_dicts desc rows)"
    using row_dicts_decode [of _ rows desc] by (simp add: length_row_dicts)
  have p_rows: "\<exists>results. fst (call_stored_procedure drv s w procedure_name parameters) = Inr results
          \<and> ?decoded results"
    if "returns_rows pcur (Some desc) rows" "desc \<noteq> []"
  proof -
    have "fetch_results pcur = Inr (row_dicts desc rows)"
      using that by (rule fetch_results_rows)
    moreover have "execute_raises pcur = None" using that(1) by (simp add: returns_rows_def)
    ultimately have "fst (call_stored_procedure drv s w procedure_name parameters)
        = Inr (row_dicts desc rows)"
      using assms(1-4) call_stored_procedure_result by blast
    then show ?thesis using decoded by blast
  qed
  have q_rows: "\<exists>results. fst (execute_query drv s w query) = Inr results \<and> ?decoded results"
    if "returns_rows qcur (Some desc) rows" "desc \<noteq> []"
  proof -
    have "fetch_results qcur = Inr (row_dicts desc rows)"
      using that by (rule fetch_results_rows)
    moreover have "execute_raises qcur = None" using that(1) by (simp add: returns_rows_def)
    ultimately have "fst (execute_query drv s w query) = Inr (row_dicts desc rows)"
      using assms(1-3,5) execute_query_result by blast
    then show ?thesis using decoded by blast
  qed
  have p_none: "fst (call_stored_procedure drv s w procedure_name parameters) = Inr []"
    if "execute_raises pcur = None" "close_raises pcur = None"
      "description pcur = None \<or> description pcur = Some []"
  proof -
    have "fetch_results pcur = Inr []" using that(2,3) by (rule fetch_results_no_description)
    moreover have "execute_raises pcur = None" using that(1) .
    ultimately show ?thesis using assms(1-4) call_stored_procedure_result by blast
  qed
  have q_none: "fst (execute_query drv s w query) = Inr []"
    if "execute_raises qcur = None" "close_raises qcur = None"
      "description qcur = None \<or> description qcur = Some []"
  proof -
    have "fetch_results qcur = Inr []" using that(2,3) by (rule fetch_results_no_description)
    moreover have "execute_raises qcur = None" using that(1) .
    ultimately show ?thesis using assms(1-3,5) execute_query_result by blast
  qed
  have example: "row_dicts [(''A'', ta), (''B'', tb)] [[PInt 1, PStr ''x''], [PInt 2, PStr ''y'']]
            = [[(''A'', PInt 1), (''B'', PStr ''x'')], [(''A'', PInt 2), (''B'', PStr ''y'')]]"
    by (simp add: row_dicts_def py_dict_def)
  show ?thesis using p_rows q_rows p_none q_none example by blast
qed

lemma two_elements: "length xs = 2 \<Longrightarrow> xs ! 0 = a \<Longrightarrow> xs ! 1 = b \<Longrightarrow> xs = [a, b]"
  by (cases xs; cases "tl xs") auto

theorem results_are_one_record_per_row_witness:
  "fst (call_stored_procedure drv_table (client_test\<lparr>connection := Some 0\<rparr>)
          \<lparr>conns = [False], dlog = []\<rparr> ''sp_example'' None)
     = Inr [[(''A'', PInt 1), (''B'', PStr ''x'')], [(''A'', PInt 2), (''B'', PStr ''y'')]]
   \<and> fst (execute_query drv_table (client_test\<lparr>connection := Some 0\<rparr>)
          \<lparr>conns = [False], dlog = []\<rparr> ''SELECT A, B FROM T'')
     = Inr [[(''A'', PInt 1), (''B'', PStr ''x'')], [(''A'', PInt 2), (''B'', PStr ''y'')]]
   \<and> fst (call_stored_procedure drv_no_table (client_test\<lparr>connection := Some 0\<rparr>)
          \<lparr>conns = [False], dlog = []\<rparr> ''sp_example'' None) = Inr []
   \<and> fst (execute_query drv_no_table (client_test\<lparr>connection := Some 0\<rparr>)
          \<lparr>conns = [False], dlog = []\<rparr> ''SELECT A, B FROM T'') = Inr []"
proof -
  let ?s = "client_test\<lparr>connection := Some 0\<rparr>"
  let ?w = "\<lparr>conns = [False], dlog = []\<rparr>"
  let ?desc = "[(''A'', 0), (''B'', 2)] :: (string \<times> nat) list"
  let ?rows = "[[PInt 1, PStr ''x''], [PInt 2, PStr ''y'']]"
  have s: "connection ?s = Some 0" by simp
  have w: "\<not> is_closed ?w 0" by (simp add: is_closed_def)
  have c: "drv_cursor drv_table 0 = None" by (simp add: drv_table_def)
  have c': "drv_cursor drv_no_table 0 = None" by (simp add: drv_no_table_def)
  have p: "drv_execute drv_table (fst (call_statement ''sp_example'' None))
      (snd (call_statement ''sp_example'' None)) = table_AB"
    by (simp add: drv_table_def)
  have q: "drv_execute drv_table ''SELECT A, B FROM T'' None = table_AB"
    by (simp add: drv_table_def)
  have p': "drv_execute drv_no_table (fst (call_statement ''sp_example'' None))
      (snd (call_statement ''sp_example'' None)) = no_table"
    by (simp add: drv_no_table_def)
  have q': "drv_execute drv_no_table ''SELECT A, B FROM T'' None = no_table"
    by (simp add: drv_no_table_def)
  have r: "returns_rows table_AB (Some ?desc) ?rows \<and> ?desc \<noteq> []"
    by (simp add: returns_rows_def table_AB_def)
  have r': "execute_raises no_table = None \<and> close_raises no_table = None
      \<and> (description no_table = None \<or> description no_table = Some [])"
    by (simp add: no_table_def)
  have d: "distinct (map fst ?desc)" by simp
  note t = results_are_one_record_per_row [OF s w c p q, of ?desc ?rows]
  note t' = results_are_one_record_per_row [OF s w c' p' q', of _ "[]"]
  from t r obtain results where
    a: "fst (call_stored_procedure drv_table ?s ?w ''sp_example'' None) = Inr results"
    and l: "length results = length ?rows"
    and e: "\<forall>i<length ?rows. distinct (map fst ?desc) \<and> length (?rows ! i) = length ?desc \<longrightarrow>
              results ! i = zip (map fst ?desc) (?rows ! i)"
    by blast
  have "results ! 0 = zip (map fst ?desc) (?rows ! 0)" using e d by simp
  moreover have "results ! 1 = zip (map fst ?desc) (?rows ! 1)" using e d by simp
  ultimately have "results = [[(''A'', PInt 1), (''B'', PStr ''x'')], [(''A'', PInt 2), (''B'', PStr ''y'')]]"
    using l by (intro two_elements) simp_all
  then have first: "fst (call_stored_procedure drv_table ?s ?w ''sp_example'' None)
     = Inr [[(''A'', PInt 1), (''B'', PStr ''x'')], [(''A'', PInt 2), (''B'', PStr ''y'')]]"
    using a by simp
  from t r obtain qresults where
    a: "fst (execute_query drv_table ?s ?w ''SELECT A, B FROM T'') = Inr qresults"
    and l: "length qresults = length ?rows"
    and e: "\<forall>i<length ?rows. distinct (map fst ?desc) \<and> length (?rows ! i) = length ?desc \<longrightarrow>
              qresults ! i = zip (map fst ?desc) (?rows ! i)"
    by blast
  have "qresults ! 0 = zip (map fst ?desc) (?rows ! 0)" using e d by simp
  moreover have "qresults ! 1 = zip (map fst ?desc) (?rows ! 1)" using e d by simp
  ultimately have "qresults = [[(''A'', PInt 1), (''B'', PStr ''x'')], [(''A'', PInt 2), (''B'', PStr ''y'')]]"
    using l by (intro two_elements) simp_all
  then have second: "fst (execute_query drv_table ?s ?w ''SELECT A, B FROM T'')
     = Inr [[(''A'', PInt 1), (''B'', PStr ''x'')], [(''A'', PInt 2), (''B'', PStr ''y'')]]"
    using a by simp
  have third: "fst (call_stored_procedure drv_no_table ?s ?w ''sp_example'' None) = Inr []"
    using t' r' by blast
  have fourth: "fst (execute_query drv_no_table ?s ?w ''SELECT A, B FROM T'') = Inr []"
    using t' r' by blast
  show ?thesis using first second third fourth by simp
qed

section \<open>The empty parameter list\<close>

lemma run_cursor_dlog_refused:
  "drv_cursor drv h = Some e \<Longrightarrow> dlog (snd (run_cursor drv h stmt w)) = dlog w @ [DrvCursor h]"
  by (simp add: run_cursor_def called_def Let_def)

lemma call_stored_procedure_outcome:
  "connection s = Some h \<Longrightarrow> \<not> is_closed w h \<Longrightarrow>
   fst (call_stored_procedure drv s w procedure_name parameters)
     = (case fst (run_cursor drv h (call_statement procedure_name parameters) w) of
          Inl e \<Rightarrow> Inl (procedure_error procedure_name e)
        | Inr results \<Rightarrow> Inr results)"
  by (cases "run_cursor drv h (call_statement procedure_name parameters) w";
      cases "fst (run_cursor drv h (call_statement procedure_name parameters) w)")
    (simp_all add: call_stored_procedure_connected)

lemma execute_query_outcome:
  "connection s = Some h \<Longrightarrow> \<not> is_closed w h \<Longrightarrow>
   fst (execute_query drv s w query)
     = (case fst (run_cursor drv h (query, None) w) of
          Inl e \<Rightarrow> Inl (query_error e)
        | Inr results \<Rightarrow> Inr results)"
  by (cases "run_cursor drv h (query, None) w"; cases "fst (run_cursor drv h (query, None) w)")
    (simp_all add: execute_query_connected)

text \<open>
  C10. An empty parameter list takes the branch of no parameters. On a connected session
  the driver is asked for a cursor and, when the cursor opens, its \<^verbatim>\<open>execute\<close> receives
  the statement \<^verbatim>\<open>CALL name()\<close> and no values, and nothing else reaches the driver; when
  \<^verbatim>\<open>execute\<close> raises, the method raises the \<^verbatim>\<open>StoredProcedureError\<close> made of the driver's
  exception for that statement, and otherwise it returns the records of the cursor that
  answers \<^verbatim>\<open>CALL name()\<close> without values. The call behaves as with \<^verbatim>\<open>None\<close>, and no
  parameter list at all makes the method hand an empty list of values to \<^verbatim>\<open>execute\<close>.
\<close>

theorem empty_parameter_list_calls_without_arguments:
  "(connection s = Some h \<and> \<not> is_closed w h \<and> drv_cursor drv h = None \<longrightarrow>
      dlog (snd (call_stored_procedure drv s w procedure_name (Some [])))
        = dlog w @ [DrvCursor h, DrvExecute h (''CALL '' @ procedure_name @ ''()'') None]
      \<and> (\<forall>e. execute_raises (drv_execute drv (''CALL '' @ procedure_name @ ''()'') None) = Some e
            \<longrightarrow> fst (call_stored_procedure drv s w procedure_name (Some []))
                  = Inl (procedure_error procedure_name e))
      \<and> (execute_raises (drv_execute drv (''CALL '' @ procedure_name @ ''()'') None) = None
            \<longrightarrow> fst (call_stored_procedure drv s w procedure_name (Some []))
                  = (case fetch_results (drv_execute drv (''CALL '' @ procedure_name @ ''()'') None) of
                       Inl e \<Rightarrow> Inl (procedure_error procedure_name e)
                     | Inr results \<Rightarrow> Inr results)))
   \<and> (\<forall>e. connection s = Some h \<and> \<not> is_closed w h \<and> drv_cursor drv h = Some e \<longrightarrow>
        dlog (snd (call_stored_procedure drv s w procedure_name (Some []))) = dlog w @ [DrvCursor h])
   \<and> call_statement procedure_name (Some []) = (''CALL '' @ procedure_name @ ''()'', None)
   \<and> call_statement procedure_name (Some []) = call_statement procedure_name None
   \<and> call_stored_procedure drv s w procedure_name (Some [])
       = call_stored_procedure drv s w procedure_name None
   \<and> snd (call_statement procedure_name parameters) \<noteq> Some []"
proof -
  let ?stmt = "''CALL '' @ procedure_name @ ''()''"
  have cs: "call_statement procedure_name (Some []) = (?stmt, None)"
    by simp
  have eq: "call_statement procedure_name (Some []) = call_statement procedure_name None"
    by simp
  have same: "call_stored_procedure drv s w procedure_name (Some [])
       = call_stored_procedure drv s w procedure_name None"
    unfolding call_stored_procedure_def eq by (rule refl)
  have never: "snd (call_statement procedure_name parameters) \<noteq> Some []"
    by (cases parameters) simp_all
  have opened: "dlog (snd (call_stored_procedure drv s w procedure_name (Some [])))
        = dlog w @ [DrvCursor h, DrvExecute h ?stmt None]
      \<and> (\<forall>e. execute_raises (drv_execute drv ?stmt None) = Some e
            \<longrightarrow> fst (call_stored_procedure drv s w procedure_name (Some []))
                  = Inl (procedure_error procedure_name e))
      \<and> (execute_raises (drv_execute drv ?stmt None) = None
            \<longrightarrow> fst (call_stored_procedure drv s w procedure_name (Some []))
                  = (case fetch_results (drv_execute drv ?stmt None) of
                       Inl e \<Rightarrow> Inl (procedure_error procedure_name e)
                     | Inr results \<Rightarrow> Inr results))"
    if c: "connection s = Some h" "\<not> is_closed w h" and o: "drv_cursor drv h = None"
  proof -
    have log: "dlog (snd (call_stored_procedure drv s w procedure_name (Some [])))
        = dlog w @ [DrvCursor h, DrvExecute h ?stmt None]"
      using call_stored_procedure_world [OF c, of drv procedure_name "Some []"]
        run_cursor_dlog [OF o, of "(?stmt, None)" w] cs
      by simp
    have out: "fst (call_stored_procedure drv s w procedure_name (Some []))
        = (case fst (run_cursor drv h (?stmt, None) w) of
             Inl e \<Rightarrow> Inl (procedure_error procedure_name e)
           | Inr results \<Rightarrow> Inr results)"
      using call_stored_procedure_outcome [OF c, of drv procedure_name "Some []"] cs by simp
    have raised: "fst (call_stored_procedure drv s w procedure_name (Some []))
                  = Inl (procedure_error procedure_name e)"
      if "execute_raises (drv_execute drv ?stmt None) = Some e" for e
    proof -
      have "fst (run_cursor drv h (?stmt, None) w) = Inl e"
        using o that by (simp add: run_cursor_def Let_def)
      then show ?thesis using out by simp
    qed
    have returned: "fst (call_stored_procedure drv s w procedure_name (Some []))
                  = (case fetch_results (drv_execute drv ?stmt None) of
                       Inl e \<Rightarrow> Inl (procedure_error procedure_name e)
                     | Inr results \<Rightarrow> Inr results)"
      if "execute_raises (drv_execute drv ?stmt None) = None"
    proof -
      have "fst (run_cursor drv h (?stmt, None) w) = fetch_results (drv_execute drv ?stmt None)"
        using o that run_cursor_executed [of drv h "(?stmt, None)" w] by simp
      then show ?thesis using out by simp
    qed
    show ?thesis using log raised returned by blast
  qed
  have refused: "dlog (snd (call_stored_procedure drv s w procedure_name (Some [])))
        = dlog w @ [DrvCursor h]"
    if "connection s = Some h" "\<not> is_closed w h" "drv_cursor drv h = Some e" for e
    using call_stored_procedure_world [OF that(1,2), of drv procedure_name "Some []"]
      run_cursor_dlog_refused [OF that(3)]
    by simp
  show ?thesis using opened refused cs eq same never by blast
qed

theorem empty_parameter_list_calls_without_arguments_witness:
  "call_stored_procedure drv_table (client_test\<lparr>connection := Some 0\<rparr>)
       \<lparr>conns = [False], dlog = []\<rparr> ''my_proc'' (Some [])
     = (Inr [[(''A'', PInt 1), (''B'', PStr ''x'')], [(''A'', PInt 2), (''B'', PStr ''y'')]],
        \<lparr>conns = [False], dlog = [DrvCursor 0, DrvExecute 0 ''CALL my_proc()'' None]\<rparr>)
   \<and> fst (call_stored_procedure (drv_failing (Raised ProgrammingErrorC ''boom''))
            (client_test\<lparr>connection := Some 0\<rparr>) \<lparr>conns = [False], dlog = []\<rparr> ''my_proc'' (Some []))
     = Inl (StoredProcedureError ''Error executing stored procedure my_proc: boom'')"
proof -
  let ?s = "client_test\<lparr>connection := Some 0\<rparr>"
  let ?w = "\<lparr>conns = [False], dlog = []\<rparr>"
  let ?bad = "drv_failing (Raised ProgrammingErrorC ''boom'')"
  have pre: "connection ?s = Some 0 \<and> \<not> is_closed ?w 0 \<and> drv_cursor drv_table 0 = None"
    by (simp add: is_closed_def drv_table_def)
  have pre': "connection ?s = Some 0 \<and> \<not> is_closed ?w 0 \<and> drv_cursor ?bad 0 = None"
    by (simp add: is_closed_def drv_failing_def)
  have ok: "execute_raises (drv_execute drv_table (''CALL '' @ ''my_proc'' @ ''()'') None) = None"
    by (simp add: drv_table_def table_AB_def)
  have bad: "execute_raises (drv_execute ?bad (''CALL '' @ ''my_proc'' @ ''()'') None)
      = Some (Raised ProgrammingErrorC ''boom'')"
    by (simp add: drv_failing_def)
  have rows: "fetch_results (drv_execute drv_table (''CALL '' @ ''my_proc'' @ ''()'') None)
      = Inr [[(''A'', PInt 1), (''B'', PStr ''x'')], [(''A'', PInt 2), (''B'', PStr ''y'')]]"
    by (simp add: drv_table_def table_AB_def fetch_results_def row_dicts_def py_dict_def)
  have conns: "conns (snd (call_stored_procedure drv_table ?s ?w ''my_proc'' (Some []))) = [False]"
    by (simp add: call_stored_procedure_conns)
  note t1 = empty_parameter_list_calls_without_arguments [of ?s 0 ?w drv_table "''my_proc''"]
  note t2 = empty_parameter_list_calls_without_arguments [of ?s 0 ?w ?bad "''my_proc''"]
  have log: "dlog (snd (call_stored_procedure drv_table ?s ?w ''my_proc'' (Some [])))
      = dlog ?w @ [DrvCursor 0, DrvExecute 0 (''CALL '' @ ''my_proc'' @ ''()'') None]"
    using t1 pre by blast
  have "fst (call_stored_procedure drv_table ?s ?w ''my_proc'' (Some []))
      = (case fetch_results (drv_execute drv_table (''CALL '' @ ''my_proc'' @ ''()'') None) of
           Inl e \<Rightarrow> Inl (procedure_error ''my_proc'' e)
         | Inr results \<Rightarrow> Inr results)"
    using t1 pre ok by blast
  then have res: "fst (call_stored_procedure drv_table ?s ?w ''my_proc'' (Some []))
      = Inr [[(''A'', PInt 1), (''B'', PStr ''x'')], [(''A'', PInt 2), (''B'', PStr ''y'')]]"
    by (simp only: rows sum.case)
  have world: "snd (call_stored_procedure drv_table ?s ?w ''my_proc'' (Some []))
      = \<lparr>conns = [False], dlog = [DrvCursor 0, DrvExecute 0 ''CALL my_proc()'' None]\<rparr>"
    using log conns by (cases "snd (call_stored_procedure drv_table ?s ?w ''my_proc'' (Some []))") simp
  have first: "call_stored_procedure drv_table ?s ?w ''my_proc'' (Some [])
     = (Inr [[(''A'', PInt 1), (''B'', PStr ''x'')], [(''A'', PInt 2), (''B'', PStr ''y'')]],
        \<lparr>conns = [False], dlog = [DrvCursor 0, DrvExecute 0 ''CALL my_proc()'' None]\<rparr>)"
    using res world by (simp add: prod_eq_iff)
  have "fst (call_stored_procedure ?bad ?s ?w ''my_proc'' (Some []))
      = Inl (procedure_error ''my_proc'' (Raised ProgrammingErrorC ''boom''))"
    using t2 pre' bad by blast
  then have second: "fst (call_stored_procedure ?bad ?s ?w ''my_proc'' (Some []))
      = Inl (StoredProcedureError ''Error executing stored procedure my_proc: boom'')"
    by simp
  show ?thesis using first second by simp
qed

section \<open>Execution failures\<close>

lemma procedure_error_message:
  "\<exists>m. procedure_error procedure_name (Raised c msg) = StoredProcedureError m
       \<and> py_contains msg m \<and> py_contains procedure_name m"
proof (cases "is_ProgrammingError c")
  case True
  then have "procedure_error procedure_name (Raised c msg)
      = StoredProcedureError (''Error executing stored procedure '' @ procedure_name @ '': '' @ msg)"
    by simp
  moreover have "py_contains procedure_name
      (''Error executing stored procedure '' @ procedure_name @ '': '' @ msg)"
    by (rule py_contains_append)
  moreover have "py_contains msg
      ((''Error executing stored procedure '' @ procedure_name @ '': '') @ msg)"
    by (rule py_contains_suffix)
  ultimately show ?thesis by auto
next
  case False
  then have "procedure_error procedure_name (Raised c msg)
      = StoredProcedureError
          (''Unexpected error executing stored procedure '' @ procedure_name @ '': '' @ msg)"
    by simp
  moreover have "py_contains procedure_name
      (''Unexpected error executing stored procedure '' @ procedure_name @ '': '' @ msg)"
    by (rule py_contains_append)
  moreover have "py_contains msg
      ((''Unexpected error executing stored procedure '' @ procedure_name @ '': '') @ msg)"
    by (rule py_contains_suffix)
  ultimately show ?thesis by auto
qed

lemma query_error_message:
  "\<exists>m. query_error (Raised c msg) = StoredProcedureError m \<and> py_contains msg m
       \<and> m = (if is_ProgrammingError c then ''Error executing query: ''
              else ''Unexpected error executing query: '') @ msg"
proof -
  let ?m = "(if is_ProgrammingError c then ''Error executing query: ''
              else ''Unexpected error executing query: '') @ msg"
  have "query_error (Raised c msg) = StoredProcedureError ?m" by simp
  moreover have "py_contains msg ?m" by (rule py_contains_suffix)
  ultimately show ?thesis by blast
qed

lemma call_stored_procedure_failure:
  "connection s = Some h \<Longrightarrow> \<not> is_closed w h \<Longrightarrow>
   fst (call_stored_procedure drv s w procedure_name parameters) = Inl e \<Longrightarrow>
   \<exists>m. e = StoredProcedureError m"
  by (cases "run_cursor drv h (call_statement procedure_name parameters) w";
      cases "fst (run_cursor drv h (call_statement procedure_name parameters) w)";
      cases "projl (fst (run_cursor drv h (call_statement procedure_name parameters) w))")
    (auto simp: call_stored_procedure_connected split: if_splits)

lemma execute_query_failure:
  "connection s = Some h \<Longrightarrow> \<not> is_closed w h \<Longrightarrow>
   fst (execute_query drv s w query) = Inl e \<Longrightarrow> \<exists>m. e = StoredProcedureError m"
  by (cases "run_cursor drv h (query, None) w"; cases "fst (run_cursor drv h (query, None) w)";
      cases "projl (fst (run_cursor drv h (query, None) w))")
    (auto simp: execute_query_connected split: if_splits)

lemma run_cursor_fails:
  assumes "drv_execute drv (fst stmt) (snd stmt) = cur"
    and "drv_cursor drv h = Some e
      \<or> (drv_cursor drv h = None \<and> execute_raises cur = Some e)
      \<or> (drv_cursor drv h = None \<and> execute_raises cur = None
          \<and> description cur = Some desc \<and> desc \<noteq> [] \<and> fetchall cur = Inl e)
      \<or> (drv_cursor drv h = None \<and> execute_raises cur = None
          \<and> (description cur = None \<or> description cur = Some [] \<or> fetchall cur = Inr rows)
          \<and> close_raises cur = Some e)"
  shows "fst (run_cursor drv h stmt w) = Inl e"
  using assms by (auto simp: run_cursor_def fetch_results_def Let_def split: option.splits)

text \<open>
  C4, as the code has it. On a connected session, when the driver raises while the cursor
  is opened, in \<^verbatim>\<open>execute\<close>, in \<^verbatim>\<open>fetchall\<close> (called when there is a description) or
  while the cursor is closed, \<^verbatim>\<open>call_stored_procedure\<close> raises \<^verbatim>\<open>StoredProcedureError\<close>
  with a message made of a fixed prefix, the procedure name and the text of the cause, and
  \<^verbatim>\<open>execute_query\<close> raises \<^verbatim>\<open>StoredProcedureError\<close> with a message that is exactly a
  fixed prefix followed by the text of the cause: the query adds nothing to it. Neither
  method raises anything else once the session is connected.
\<close>

theorem execution_failure_message:
  assumes "connection s = Some h" and "\<not> is_closed w h"
    and "drv_execute drv (fst (call_statement procedure_name parameters))
           (snd (call_statement procedure_name parameters)) = pcur"
    and "drv_execute drv query None = qcur"
  shows "(drv_cursor drv h = Some (Raised c msg)
          \<or> (drv_cursor drv h = None \<and> execute_raises pcur = Some (Raised c msg))
          \<or> (drv_cursor drv h = None \<and> execute_raises pcur = None
              \<and> description pcur = Some desc \<and> desc \<noteq> [] \<and> fetchall pcur = Inl (Raised c msg))
          \<or> (drv_cursor drv h = None \<and> execute_raises pcur = None
              \<and> (description pcur = None \<or> description pcur = Some [] \<or> fetchall pcur = Inr rows)
              \<and> close_raises pcur = Some (Raised c msg))
          \<longrightarrow> (\<exists>m. fst (call_stored_procedure drv s w procedure_name parameters)
                        = Inl (StoredProcedureError m)
                    \<and> m = (if is_ProgrammingError c then ''Error executing stored procedure ''
                           else ''Unexpected error executing stored procedure '')
                          @ procedure_name @ '': '' @ msg
                    \<and> py_contains msg m \<and> py_contains procedure_name m))
       \<and> (drv_cursor drv h = Some (Raised c msg)
          \<or> (drv_cursor drv h = None \<and> execute_raises qcur = Some (Raised c msg))
          \<or> (drv_cursor drv h = None \<and> execute_raises qcur = None
              \<and> description qcur = Some desc \<and> desc \<noteq> [] \<and> fetchall qcur = Inl (Raised c msg))
          \<or> (drv_cursor drv h = None \<and> execute_raises qcur = None
              \<and> (description qcur = None \<or> description qcur = Some [] \<or> fetchall qcur = Inr rows)
              \<and> close_raises qcur = Some (Raised c msg))
          \<longrightarrow> (\<exists>m. fst (execute_query drv s w query) = Inl (StoredProcedureError m)
                    \<and> m = (if is_ProgrammingError c then ''Error executing query: ''
                           else ''Unexpected error executing query: '') @ msg
                    \<and> py_contains msg m))
       \<and> (\<forall>e. fst (call_stored_procedure drv s w procedure_name parameters) = Inl e
                 \<or> fst (execute_query drv s w query) = Inl e
            \<longrightarrow> (\<exists>m. e = StoredProcedureError m))"
proof -
  let ?pm = "(if is_ProgrammingError c then ''Error executing stored procedure ''
              else ''Unexpected error executing stored procedure '')
             @ procedure_name @ '': '' @ msg"
  let ?qm = "(if is_ProgrammingError c then ''Error executing query: ''
              else ''Unexpected error executing query: '') @ msg"
  have pe: "procedure_error procedure_name (Raised c msg) = StoredProcedureError ?pm"
    by simp
  have qe: "query_error (Raised c msg) = StoredProcedureError ?qm"
    by simp
  have pn: "py_contains procedure_name ?pm"
    by (rule py_contains_append)
  have "py_contains msg (((if is_ProgrammingError c then ''Error executing stored procedure ''
              else ''Unexpected error executing stored procedure '')
             @ procedure_name @ '': '') @ msg)"
    by (rule py_contains_suffix)
  then have pc: "py_contains msg ?pm" by simp
  have qc: "py_contains msg ?qm"
    by (rule py_contains_suffix)
  have p: "\<exists>m. fst (call_stored_procedure drv s w procedure_name parameters)
                        = Inl (StoredProcedureError m)
                    \<and> m = ?pm \<and> py_contains msg m \<and> py_contains procedure_name m"
    if "drv_cursor drv h = Some (Raised c msg)
          \<or> (drv_cursor drv h = None \<and> execute_raises pcur = Some (Raised c msg))
          \<or> (drv_cursor drv h = None \<and> execute_raises pcur = None
              \<and> description pcur = Some desc \<and> desc \<noteq> [] \<and> fetchall pcur = Inl (Raised c msg))
          \<or> (drv_cursor drv h = None \<and> execute_raises pcur = None
              \<and> (description pcur = None \<or> description pcur = Some [] \<or> fetchall pcur = Inr rows)
              \<and> close_raises pcur = Some (Raised c msg))"
  proof -
    have "fst (run_cursor drv h (call_statement procedure_name parameters) w) = Inl (Raised c msg)"
      using assms(3) that by (rule run_cursor_fails)
    then have "fst (call_stored_procedure drv s w procedure_name parameters)
        = Inl (procedure_error procedure_name (Raised c msg))"
      using call_stored_procedure_outcome [OF assms(1,2), of drv procedure_name parameters]
      by simp
    then have "fst (call_stored_procedure drv s w procedure_name parameters)
        = Inl (StoredProcedureError ?pm)"
      by (simp only: pe)
    then show ?thesis using pc pn by blast
  qed
  have q: "\<exists>m. fst (execute_query drv s w query) = Inl (StoredProcedureError m)
                    \<and> m = ?qm \<and> py_contains msg m"
    if "drv_cursor drv h = Some (Raised c msg)
          \<or> (drv_cursor drv h = None \<and> execute_raises qcur = Some (Raised c msg))
          \<or> (drv_cursor drv h = None \<and> execute_raises qcur = None
              \<and> description qcur = Some desc \<and> desc \<noteq> [] \<and> fetchall qcur = Inl (Raised c msg))
          \<or> (drv_cursor drv h = None \<and> execute_raises qcur = None
              \<and> (description qcur = None \<or> description qcur = Some [] \<or> fetchall qcur = Inr rows)
              \<and> close_raises qcur = Some (Raised c msg))"
  proof -
    have "drv_execute drv (fst (query, None :: pyval list option)) (snd (query, None :: pyval list option)) = qcur"
      using assms(4) by simp
    then have "fst (run_cursor drv h (query, None) w) = Inl (Raised c msg)"
      using that by (rule run_cursor_fails)
    then have "fst (execute_query drv s w query) = Inl (query_error (Raised c msg))"
      using execute_query_outcome [OF assms(1,2), of drv query] by simp
    then have "fst (execute_query drv s w query) = Inl (StoredProcedureError ?qm)"
      by (simp only: qe)
    then show ?thesis using qc by blast
  qed
  have only: "\<exists>m. e = StoredProcedureError m"
    if "fst (call_stored_procedure drv s w procedure_name parameters) = Inl e
                 \<or> fst (execute_query drv s w query) = Inl e" for e
    using that call_stored_procedure_failure [OF assms(1,2)] execute_query_failure [OF assms(1,2)]
    by blast
  from p q only show ?thesis by (intro conjI impI allI) blast+
qed

theorem execution_failure_message_witness:
  "fst (call_stored_procedure (drv_failing (Raised ProgrammingErrorC ''Unknown function NO_SUCH_PROC''))
            (client_test\<lparr>connection := Some 0\<rparr>) \<lparr>conns = [False], dlog = []\<rparr> ''no_such_proc'' None)
     = Inl (StoredProcedureError
              ''Error executing stored procedure no_such_proc: Unknown function NO_SUCH_PROC'')
   \<and> py_contains ''no_such_proc''
        ''Error executing stored procedure no_such_proc: Unknown function NO_SUCH_PROC''
   \<and> py_contains ''Unknown function NO_SUCH_PROC''
        ''Error executing stored procedure no_such_proc: Unknown function NO_SUCH_PROC''
   \<and> fst (execute_query (drv_failing (Raised ProgrammingErrorC ''Unknown function NO_SUCH_PROC''))
            (client_test\<lparr>connection := Some 0\<rparr>) \<lparr>conns = [False], dlog = []\<rparr> ''SELECT 1'')
       = Inl (StoredProcedureError ''Error executing query: Unknown function NO_SUCH_PROC'')"
proof -
  let ?e = "Raised ProgrammingErrorC ''Unknown function NO_SUCH_PROC''"
  let ?drv = "drv_failing ?e"
  let ?cur = "no_table\<lparr>execute_raises := Some ?e\<rparr>"
  let ?s = "client_test\<lparr>connection := Some 0\<rparr>"
  let ?w = "\<lparr>conns = [False], dlog = []\<rparr>"
  have s: "connection ?s = Some 0" by simp
  have w: "\<not> is_closed ?w 0" by (simp add: is_closed_def)
  have p: "drv_execute ?drv (fst (call_statement ''no_such_proc'' None))
      (snd (call_statement ''no_such_proc'' None)) = ?cur"
    by (simp add: drv_failing_def)
  have q: "drv_execute ?drv ''SELECT 1'' None = ?cur"
    by (simp add: drv_failing_def)
  have f: "drv_cursor ?drv 0 = None \<and> execute_raises ?cur = Some ?e"
    by (simp add: drv_failing_def)
  note t = execution_failure_message [OF s w p q, of ProgrammingErrorC
      "''Unknown function NO_SUCH_PROC''"]
  from t f obtain m where
    m: "fst (call_stored_procedure ?drv ?s ?w ''no_such_proc'' None) = Inl (StoredProcedureError m)"
      "m = (if is_ProgrammingError ProgrammingErrorC then ''Error executing stored procedure ''
            else ''Unexpected error executing stored procedure '')
           @ ''no_such_proc'' @ '': '' @ ''Unknown function NO_SUCH_PROC''"
      "py_contains ''Unknown function NO_SUCH_PROC'' m" "py_contains ''no_such_proc'' m"
    by blast
  have mv: "m = ''Error executing stored procedure no_such_proc: Unknown function NO_SUCH_PROC''"
    using m(2) by simp
  from t f obtain n where
    n: "fst (execute_query ?drv ?s ?w ''SELECT 1'') = Inl (StoredProcedureError n)"
      "n = (if is_ProgrammingError ProgrammingErrorC then ''Error executing query: ''
            else ''Unexpected error executing query: '') @ ''Unknown function NO_SUCH_PROC''"
    by blast
  have nv: "n = ''Error executing query: Unknown function NO_SUCH_PROC''"
    using n(2) by simp
  show ?thesis using m(1,3,4) n(1) mv nv by simp
qed

text \<open>
  C4 as stated fails for \<^verbatim>\<open>execute_query\<close>: when \<^verbatim>\<open>execute\<close> raises
  \<^verbatim>\<open>ProgrammingError("boom")\<close> for the query \<^verbatim>\<open>SELECT 1\<close>, the message of the
  \<^verbatim>\<open>StoredProcedureError\<close> is \<^verbatim>\<open>Error executing query: boom\<close>, which does not contain
  the query.
\<close>

theorem query_error_omits_query_counterexample:
  "execute_query (drv_failing (Raised ProgrammingErrorC ''boom''))
       (client_test\<lparr>connection := Some 0\<rparr>) \<lparr>conns = [False], dlog = []\<rparr> ''SELECT 1''
     = (Inl (StoredProcedureError ''Error executing query: boom''),
        \<lparr>conns = [False], dlog = [DrvCursor 0, DrvExecute 0 ''SELECT 1'' None]\<rparr>)
   \<and> \<not> py_contains ''SELECT 1'' ''Error executing query: boom''"
proof -
  have "\<not> py_contains ''SELECT 1'' ''Error executing query: boom''"
    by (simp add: py_contains.simps)
  then show ?thesis
    by (simp add: execute_query_def is_connected_def is_closed_def run_cursor_def
        drv_failing_def no_table_def called_def Let_def)
qed

section \<open>The parameter string\<close>

lemma split_not_Nil: "split sep s \<noteq> []"
  by (induction s) (auto split: list.splits)

lemma join_split: "join [sep] (split sep s) = s"
proof (induction s)
  case Nil
  show ?case by simp
next
  case (Cons c cs)
  obtain t ts where ts: "split sep cs = t # ts"
    using split_not_Nil [of sep cs] by (cases "split sep cs") auto
  show ?case
  proof (cases "c = sep")
    case True
    then show ?thesis using Cons.IH ts by simp
  next
    case False
    then show ?thesis using Cons.IH ts by (cases ts) auto
  qed
qed





section \<open>The configuration of the command line\<close>

lemma dict_get_set_if_truthy:
  "dict_get (set_if_truthy key v config) k
     = (if k = key \<and> truthy v then v else dict_get config k)"
  by (cases v) (auto simp: set_if_truthy_def truthy_def dict_get_def update_conv')

lemma dict_get_Nil: "dict_get [] k = None"
  by (simp add: dict_get_def)

lemma config_account:
  "dict_get (override_config a (load_config_from_env getenv)) ''account''
     = (if truthy (arg_account a) then arg_account a
        else if truthy (getenv ''SNOWFLAKE_ACCOUNT'') then getenv ''SNOWFLAKE_ACCOUNT'' else None)"
  by (simp add: override_config_def load_config_from_env_def env_mapping_def
      dict_get_set_if_truthy dict_get_Nil getattr_def)

lemma config_username:
  "dict_get (override_config a (load_config_from_env getenv)) ''username''
     = (if truthy (arg_username a) then arg_username a
        else if truthy (getenv ''SNOWFLAKE_USERNAME'') then getenv ''SNOWFLAKE_USERNAME'' else None)"
  by (simp add: override_config_def load_config_from_env_def env_mapping_def
      dict_get_set_if_truthy dict_get_Nil getattr_def)

lemma config_token:
  "dict_get (override_config a (load_config_from_env getenv)) ''token''
     = (if truthy (arg_token a) then arg_token a
        else if truthy (getenv ''SNOWFLAKE_TOKEN'') then getenv ''SNOWFLAKE_TOKEN'' else None)"
  by (simp add: override_config_def load_config_from_env_def env_mapping_def
      dict_get_set_if_truthy dict_get_Nil getattr_def)

lemma truthy_iff: "truthy v \<longleftrightarrow> (\<exists>x. v = Some x \<and> x \<noteq> [])"
  by (cases v) (simp_all add: truthy_def)

lemma choice_None:
  "(if truthy u then u else if truthy v then v else None) = None \<longleftrightarrow> \<not> truthy u \<and> \<not> truthy v"
  by (auto simp: truthy_iff)

lemma missing_params_iff:
  "missing_params (override_config a (load_config_from_env getenv)) \<noteq> [] \<longleftrightarrow>
     (\<not> truthy (arg_account a) \<and> \<not> truthy (getenv ''SNOWFLAKE_ACCOUNT''))
     \<or> (\<not> truthy (arg_username a) \<and> \<not> truthy (getenv ''SNOWFLAKE_USERNAME''))
     \<or> (\<not> truthy (arg_token a) \<and> \<not> truthy (getenv ''SNOWFLAKE_TOKEN''))"
proof -
  let ?config = "override_config a (load_config_from_env getenv)"
  have "missing_params ?config \<noteq> [] \<longleftrightarrow>
      dict_get ?config ''account'' = None \<or> dict_get ?config ''username'' = None
      \<or> dict_get ?config ''token'' = None"
    by (simp add: missing_params_def)
  then show ?thesis
    by (simp only: config_account config_username config_token choice_None)
qed

lemma main_missing:
  "missing_params (override_config a (load_config_from_env getenv)) \<noteq> [] \<Longrightarrow>
   \<exists>m. main drv json_loads getenv a w = (Inl (ClientError (ConfigurationError m)), w)"
  by (simp add: main_def Let_def)

text \<open>
  C1, as the code has it. The check is in \<^verbatim>\<open>main\<close>: when account, username or token is
  absent or empty both among the arguments and in the environment, \<^verbatim>\<open>main\<close> raises
  \<^verbatim>\<open>ConfigurationError\<close> before it creates a client, and the driver receives no call.
\<close>

theorem main_requires_account_username_token:
  assumes "(\<not> truthy (arg_account a) \<and> \<not> truthy (getenv ''SNOWFLAKE_ACCOUNT''))
     \<or> (\<not> truthy (arg_username a) \<and> \<not> truthy (getenv ''SNOWFLAKE_USERNAME''))
     \<or> (\<not> truthy (arg_token a) \<and> \<not> truthy (getenv ''SNOWFLAKE_TOKEN''))"
  shows "\<exists>m. main drv json_loads getenv a w = (Inl (ClientError (ConfigurationError m)), w)"
  using assms missing_params_iff main_missing by blast

theorem main_requires_account_username_token_witness:
  "\<exists>m. main drv_table json_sample (\<lambda>v. if v = ''SNOWFLAKE_ACCOUNT'' then Some '''' else Some ''x'')
         (no_args\<lparr>arg_username := Some ''test'', arg_token := Some ''test''\<rparr>) world0
       = (Inl (ClientError (ConfigurationError m)), world0)"
proof -
  have "\<not> truthy (arg_account (no_args\<lparr>arg_username := Some ''test'', arg_token := Some ''test''\<rparr>))
      \<and> \<not> truthy ((\<lambda>v. if v = ''SNOWFLAKE_ACCOUNT'' then Some '''' else Some ''x'') ''SNOWFLAKE_ACCOUNT'')"
    by (simp add: truthy_def no_args_def)
  then show ?thesis
    using main_requires_account_username_token [of
        "no_args\<lparr>arg_username := Some ''test'', arg_token := Some ''test''\<rparr>"
        "\<lambda>v. if v = ''SNOWFLAKE_ACCOUNT'' then Some '''' else Some ''x''"
        drv_table json_sample world0]
    by blast
qed

text \<open>
  \<^verbatim>\<open>connect\<close> itself checks nothing: whatever the fields hold, the driver is called once
  with them, and no outcome of \<^verbatim>\<open>connect\<close> is a \<^verbatim>\<open>ConfigurationError\<close>.
\<close>

lemma connect_calls_driver:
  "dlog (snd (snd (connect drv s w))) = dlog w @ [DrvConnect (connection_params s)]"
  by (cases "drv_connect drv (connection_params s)")
    (simp_all add: connect_def called_def Let_def)

lemma connect_error_not_ConfigurationError: "connect_error e \<noteq> ConfigurationError m"
  by (cases e) simp

lemma connect_never_ConfigurationError: "fst (connect drv s w) \<noteq> Inl (ConfigurationError m)"
  by (cases "drv_connect drv (connection_params s)")
    (simp_all add: connect_def Let_def connect_error_not_ConfigurationError)

lemma account_is_passed_on: "dict_get (connection_params s) ''account'' = Some (account s)"
  by (simp add: connection_params_def dict_get_def)

text \<open>
  C1 as stated fails for \<^verbatim>\<open>connect\<close> itself: with an empty account the driver is
  called, with the empty account among the parameters, and what \<^verbatim>\<open>connect\<close> raises or
  returns is what the driver's answer makes it, never \<^verbatim>\<open>ConfigurationError\<close>.
\<close>

theorem connect_empty_account_counterexample:
  "connect (drv_refusing (Raised DatabaseErrorC ''Invalid account'')) 
       (init '''' ''test'' ''test'' None None None None) world0
     = (Inl (SnowflakeConnectionError ''Failed to connect to Snowflake: Invalid account''),
        init '''' ''test'' ''test'' None None None None,
        \<lparr>conns = [],
         dlog = [DrvConnect [(''account'', ''''), (''user'', ''test''), (''token'', ''test''),
                             (''authenticator'', ''oauth'')]]\<rparr>)
   \<and> fst (connect drv_table (init '''' ''test'' ''test'' None None None None) world0) = Inr ()"
proof -
  have "\<not> py_contains ''authentication'' (lower ''Invalid account'')"
    by code_simp
  then show ?thesis
    by (simp add: connect_def connection_params_def drv_refusing_def drv_table_def init_def
        world0_def called_def Let_def)
qed

end
